theory Spec2Isabelle
  imports Main
begin

section \<open>Thread-local logging context: structlog/threadlocal.py\<close>

text \<open>
  The module keeps one mapping per (context class, thread) and offers a context manager
  that binds values temporarily. Python objects are mutable and shared, so the model has
  an explicit store: backing mapping objects live in a heap indexed by address, the
  per-class \<open>threading.local()\<close> is a table from class and thread to the address held in
  its attribute \<open>dict_\<close>, and every wrapper instance has its own attribute dictionary.
  Every operation takes the calling thread and the store, and returns the store it leaves.
  A raised exception is the \<open>Inl\<close> of the result.
\<close>

subsection \<open>Values, objects and the store\<close>

type_synonym key = string
type_synonym tid = nat
type_synonym cid = nat
type_synonym iid = nat
type_synonym addr = nat

datatype pyval = PyInt int | PyStr string | PyNone

type_synonym kwargs = "key \<rightharpoonup> pyval"

text \<open>The dict-like classes handed to \<open>wrap_dict\<close>, and a mapping object of such a class.\<close>

datatype dict_class = Dict | OrderedDict

datatype pydict = PyDict (klass: dict_class) (entries: "key \<rightharpoonup> pyval")

text \<open>
  A class is an ordinary mapping class or a class made by \<open>wrap_dict\<close>, which is a
  subclass of \<open>_ThreadLocalDictWrapper\<close>; \<open>cid\<close> is the identity of the class object.
\<close>

datatype cls = Backing dict_class | Wrapped cid

text \<open>A wrapper instance: its class and the identity of the instance.\<close>

datatype wref = WRef (wclass: cid) (wid: iid)

datatype pyobj = Inst wref | Plain pydict

text \<open>
  A positional argument of a constructor or of \<open>dict.update\<close>: a mapping object or an
  iterable of key/value pairs.
\<close>

datatype pyarg = ArgObj pyobj | ArgPairs "(key \<times> pyval) list"

text \<open>The bound method \<open>d.name\<close> of the mapping object at an address.\<close>

datatype bound_method = BoundMethod (bound_self: addr) (method_name: string)

datatype pyexc = ValueError | AttributeError | TypeError | Raised string

record state =
  heap :: "addr \<Rightarrow> pydict"
  next_addr :: addr
  class_name :: "cid \<Rightarrow> string"
  dict_class_of :: "cid \<Rightarrow> dict_class"
  tl_dict :: "cid \<Rightarrow> tid \<Rightarrow> addr option"
  next_cid :: cid
  inst_attrs :: "iid \<Rightarrow> string \<Rightarrow> addr option"
  next_iid :: iid

text \<open>
  \<open>tl_dict s c t\<close> is the attribute \<open>dict_\<close> of \<open>c._tl\<close> as thread \<open>t\<close> sees it,
  \<open>dict_class_of s c\<close> is \<open>c._dict_class\<close>, and \<open>inst_attrs s i name = Some a\<close> says
  that the instance's own \<open>__dict__\<close> holds, under \<open>name\<close>, the bound method \<open>name\<close> of
  the mapping object at \<open>a\<close>.
\<close>

definition init_state :: state where
  "init_state =
     \<lparr>heap = (\<lambda>a. PyDict Dict Map.empty), next_addr = 0,
      class_name = (\<lambda>c. []), dict_class_of = (\<lambda>c. Dict),
      tl_dict = (\<lambda>c t. None), next_cid = 0,
      inst_attrs = (\<lambda>i n. None), next_iid = 0\<rparr>"

text \<open>
  The logger is a collaborator outside this module; \<open>tmp_bind\<close> reads its attributes
  \<open>_current_context_class\<close> and \<open>_context\<close> and calls its \<open>bind\<close>.
\<close>

record logger =
  current_context_class :: cls
  logger_context :: pyobj

subsection \<open>The backing mapping's own operations\<close>

text \<open>The attribute names \<open>getattr\<close> finds on a mapping object of each class (Python 3).\<close>

definition dict_attrs :: "dict_class \<Rightarrow> string list" where
  "dict_attrs dc =
     [''clear'', ''copy'', ''fromkeys'', ''get'', ''items'', ''keys'', ''pop'', ''popitem'',
      ''setdefault'', ''update'', ''values'', ''__getitem__'', ''__delitem__'', ''__contains__'']
     @ (case dc of Dict \<Rightarrow> [] | OrderedDict \<Rightarrow> [''move_to_end'', ''__reversed__''])"

definition dict_clear :: "addr \<Rightarrow> state \<Rightarrow> state" where
  "dict_clear a s = s\<lparr>heap := (heap s)(a := PyDict (klass (heap s a)) Map.empty)\<rparr>"

definition dict_setitem :: "addr \<Rightarrow> key \<Rightarrow> pyval \<Rightarrow> state \<Rightarrow> state" where
  "dict_setitem a k v s =
     s\<lparr>heap := (heap s)(a := PyDict (klass (heap s a)) ((entries (heap s a))(k \<mapsto> v)))\<rparr>"

definition dict_copy :: "addr \<Rightarrow> state \<Rightarrow> pydict" where
  "dict_copy a s = heap s a"

definition dict_get :: "addr \<Rightarrow> key \<Rightarrow> state \<Rightarrow> pyval option" where
  "dict_get a k s = entries (heap s a) k"

subsection \<open>wrap_dict\<close>

text \<open>
  \<open>type(...)\<close> makes a new class object, here the next unused \<open>cid\<close>; the value of
  \<open>uuid.uuid4()\<close> is a parameter and only enters the class's name.
\<close>

definition wrap_dict :: "dict_class \<Rightarrow> string \<Rightarrow> state \<Rightarrow> cls \<times> state" where
  "wrap_dict dc uuid s =
     (Wrapped (next_cid s),
      s\<lparr>class_name := (class_name s)(next_cid s := ''WrappedDict-'' @ uuid),
        tl_dict := (tl_dict s)(next_cid s := Map.empty),
        dict_class_of := (dict_class_of s)(next_cid s := dc),
        next_cid := Suc (next_cid s)\<rparr>)"

subsection \<open>_ThreadLocalDictWrapper\<close>

text \<open>
  The property \<open>_dict\<close>: the calling thread's mapping, made by \<open>_dict_class()\<close> when the
  thread has none yet (the \<open>AttributeError\<close> branch).
\<close>

definition wrapper_dict :: "wref \<Rightarrow> tid \<Rightarrow> state \<Rightarrow> addr \<times> state" where
  "wrapper_dict self t s =
     (case tl_dict s (wclass self) t of
        Some a \<Rightarrow> (a, s)
      | None \<Rightarrow>
          (next_addr s,
           s\<lparr>heap := (heap s)(next_addr s := PyDict (dict_class_of s (wclass self)) Map.empty),
             next_addr := Suc (next_addr s),
             tl_dict := (tl_dict s)(wclass self := (tl_dict s (wclass self))(t \<mapsto> next_addr s))\<rparr>))"

text \<open>
  \<open>__getattr__\<close>, which Python calls only when the ordinary lookup has failed:
  \<open>getattr(self._dict, name)\<close>, then \<open>setattr(self, name, method)\<close>.
\<close>

definition wrapper_getattr :: "wref \<Rightarrow> string \<Rightarrow> tid \<Rightarrow> state \<Rightarrow> (pyexc + bound_method) \<times> state" where
  "wrapper_getattr self name t s =
     (case wrapper_dict self t s of
        (a, s1) \<Rightarrow>
          if name \<in> set (dict_attrs (klass (heap s1 a)))
          then (Inr (BoundMethod a name),
                s1\<lparr>inst_attrs := (inst_attrs s1)(wid self := (inst_attrs s1 (wid self))(name \<mapsto> a))\<rparr>)
          else (Inl AttributeError, s1))"

text \<open>
  The lookup \<open>obj.name\<close> of a name that the wrapper class does not define itself: the
  instance's own \<open>__dict__\<close> first, \<open>__getattr__\<close> when the name is not there.
\<close>

definition lookup_attr :: "wref \<Rightarrow> string \<Rightarrow> tid \<Rightarrow> state \<Rightarrow> (pyexc + bound_method) \<times> state" where
  "lookup_attr self name t s =
     (case inst_attrs s (wid self) name of
        Some a \<Rightarrow> (Inr (BoundMethod a name), s)
      | None \<Rightarrow> wrapper_getattr self name t s)"

text \<open>
  What the positional arguments of \<open>dict.update\<close> contribute. More than one is a
  \<open>TypeError\<close>. A plain mapping gives its items and a list of pairs gives its pairs, a later
  pair winning. A wrapper instance has \<open>keys\<close> (forwarded) but no \<open>__getitem__\<close> on its
  type, so reading the first item fails with \<open>TypeError\<close>, unless there is no key at all.
\<close>

fun positional_items :: "pyarg list \<Rightarrow> tid \<Rightarrow> state \<Rightarrow> (pyexc + (key \<rightharpoonup> pyval)) \<times> state" where
  "positional_items [] t s = (Inr Map.empty, s)"
| "positional_items [ArgObj (Plain d)] t s = (Inr (entries d), s)"
| "positional_items [ArgPairs ps] t s = (Inr (map_of (rev ps)), s)"
| "positional_items [ArgObj (Inst r)] t s =
     (case lookup_attr r ''keys'' t s of
        (Inl e, s1) \<Rightarrow> (Inl e, s1)
      | (Inr m, s1) \<Rightarrow>
          if entries (heap s1 (bound_self m)) = Map.empty then (Inr Map.empty, s1)
          else (Inl TypeError, s1))"
| "positional_items (x # y # zs) t s = (Inl TypeError, s)"

definition dict_update :: "addr \<Rightarrow> pyarg list \<Rightarrow> kwargs \<Rightarrow> tid \<Rightarrow> state \<Rightarrow> (pyexc + unit) \<times> state" where
  "dict_update a args kw t s =
     (case positional_items args t s of
        (Inl e, s1) \<Rightarrow> (Inl e, s1)
      | (Inr m, s1) \<Rightarrow>
          (Inr (),
           s1\<lparr>heap := (heap s1)(a := PyDict (klass (heap s1 a)) (entries (heap s1 a) ++ m ++ kw))\<rparr>))"

fun isinstance_wrapped :: "pyarg \<Rightarrow> cid \<Rightarrow> bool" where
  "isinstance_wrapped (ArgObj (Inst r)) c = (wclass r = c)"
| "isinstance_wrapped (ArgObj (Plain d)) c = False"
| "isinstance_wrapped (ArgPairs ps) c = False"

text \<open>\<open>__init__\<close>.\<close>

definition wrapper_init :: "wref \<Rightarrow> pyarg list \<Rightarrow> kwargs \<Rightarrow> tid \<Rightarrow> state \<Rightarrow> (pyexc + unit) \<times> state" where
  "wrapper_init self args kw t s =
     (if (case args of [] \<Rightarrow> False | x # xs \<Rightarrow> isinstance_wrapped x (wclass self))
      then (case wrapper_dict self t s of (a, s1) \<Rightarrow> dict_update a [] kw t s1)
      else (case wrapper_dict self t s of (a, s1) \<Rightarrow> dict_update a args kw t s1))"

text \<open>
  The call \<open>T(*args, **kw)\<close> of a wrapped class: a new instance, with nothing in its own
  \<open>__dict__\<close>, on which \<open>__init__\<close> runs.
\<close>

definition construct :: "cid \<Rightarrow> pyarg list \<Rightarrow> kwargs \<Rightarrow> tid \<Rightarrow> state \<Rightarrow> (pyexc + wref) \<times> state" where
  "construct c args kw t s =
     (case wrapper_init (WRef c (next_iid s)) args kw t
             (s\<lparr>inst_attrs := (inst_attrs s)(next_iid s := Map.empty), next_iid := Suc (next_iid s)\<rparr>) of
        (Inl e, s1) \<Rightarrow> (Inl e, s1)
      | (Inr u, s1) \<Rightarrow> (Inr (WRef c (next_iid s)), s1))"

text \<open>\<open>__eq__\<close> and \<open>__ne__\<close>.\<close>

fun class_of :: "pyobj \<Rightarrow> cls" where
  "class_of (Inst r) = Wrapped (wclass r)"
| "class_of (Plain d) = Backing (klass d)"

definition wrapper_eq :: "wref \<Rightarrow> pyobj \<Rightarrow> bool" where
  "wrapper_eq self other = (Wrapped (wclass self) = class_of other)"

definition wrapper_ne :: "wref \<Rightarrow> pyobj \<Rightarrow> bool" where
  "wrapper_ne self other = (\<not> wrapper_eq self other)"

text \<open>\<open>__setitem__\<close>.\<close>

definition wrapper_setitem :: "wref \<Rightarrow> key \<Rightarrow> pyval \<Rightarrow> tid \<Rightarrow> state \<Rightarrow> state" where
  "wrapper_setitem self k v t s =
     (case wrapper_dict self t s of (a, s1) \<Rightarrow> dict_setitem a k v s1)"

text \<open>
  \<open>__iter__\<close> and \<open>__len__\<close>: the keys and the number of entries of the calling
  thread's mapping, which \<open>_dict\<close> creates when it is not there yet.
\<close>

definition wrapper_iter :: "wref \<Rightarrow> tid \<Rightarrow> state \<Rightarrow> key set \<times> state" where
  "wrapper_iter self t s =
     (case wrapper_dict self t s of (a, s1) \<Rightarrow> (dom (entries (heap s1 a)), s1))"

definition wrapper_len :: "wref \<Rightarrow> tid \<Rightarrow> state \<Rightarrow> nat \<times> state" where
  "wrapper_len self t s =
     (case wrapper_dict self t s of (a, s1) \<Rightarrow> (card (dom (entries (heap s1 a))), s1))"

subsection \<open>The logger's side\<close>

text \<open>The call \<open>C(*args, **kw)\<close> of a context class, wrapped or ordinary.\<close>

fun call_class :: "cls \<Rightarrow> pyarg list \<Rightarrow> kwargs \<Rightarrow> tid \<Rightarrow> state \<Rightarrow> (pyexc + pyobj) \<times> state" where
  "call_class (Wrapped c) args kw t s =
     (case construct c args kw t s of
        (Inl e, s1) \<Rightarrow> (Inl e, s1)
      | (Inr r, s1) \<Rightarrow> (Inr (Inst r), s1))"
| "call_class (Backing dc) args kw t s =
     (case positional_items args t s of
        (Inl e, s1) \<Rightarrow> (Inl e, s1)
      | (Inr m, s1) \<Rightarrow> (Inr (Plain (PyDict dc (m ++ kw))), s1))"

text \<open>
  Modelled from the spec: \<open>logger.bind\<close>, which is not part of this module. The spec has
  it merge the values into the context and return a logger using that context, by
  constructing a context object of the logger's context class from the old context and
  the new values.
\<close>

definition logger_bind :: "logger \<Rightarrow> kwargs \<Rightarrow> tid \<Rightarrow> state \<Rightarrow> (pyexc + logger) \<times> state" where
  "logger_bind lg new_values t s =
     (case call_class (current_context_class lg) [ArgObj (logger_context lg)] new_values t s of
        (Inl e, s1) \<Rightarrow> (Inl e, s1)
      | (Inr ctx, s1) \<Rightarrow> (Inr (lg\<lparr>logger_context := ctx\<rparr>), s1))"

text \<open>\<open>logger._context.copy()\<close>: the forwarded \<open>copy\<close> of a wrapper instance, or a dict's own.\<close>

fun obj_copy :: "pyobj \<Rightarrow> tid \<Rightarrow> state \<Rightarrow> (pyexc + pyobj) \<times> state" where
  "obj_copy (Inst r) t s =
     (case lookup_attr r ''copy'' t s of
        (Inl e, s1) \<Rightarrow> (Inl e, s1)
      | (Inr m, s1) \<Rightarrow> (Inr (Plain (dict_copy (bound_self m) s1)), s1))"
| "obj_copy (Plain d) t s = (Inr (Plain d), s)"

subsection \<open>tmp_bind\<close>

fun issubclass_wrapper :: "cls \<Rightarrow> bool" where
  "issubclass_wrapper (Wrapped c) = True"
| "issubclass_wrapper (Backing dc) = False"

text \<open>\<open>C._tl.dict_\<close>, read directly: an \<open>AttributeError\<close> when it is not there.\<close>

fun class_tl_dict :: "cls \<Rightarrow> tid \<Rightarrow> state \<Rightarrow> pyexc + addr" where
  "class_tl_dict (Wrapped c) t s =
     (case tl_dict s c t of None \<Rightarrow> Inl AttributeError | Some a \<Rightarrow> Inr a)"
| "class_tl_dict (Backing dc) t s = Inl AttributeError"

text \<open>
  \<open>tmp_bind\<close> is a generator under \<open>contextlib.contextmanager\<close>. Its body up to the
  \<open>yield\<close> runs when the \<open>with\<close> statement is entered: the check, the snapshot, the bind.
  The result is the snapshot, which stays in the generator's frame, and the yielded logger.
\<close>

definition tmp_bind_enter :: "logger \<Rightarrow> kwargs \<Rightarrow> tid \<Rightarrow> state \<Rightarrow> (pyexc + pyobj \<times> logger) \<times> state" where
  "tmp_bind_enter lg tmp_values t s =
     (if \<not> issubclass_wrapper (current_context_class lg) then (Inl ValueError, s)
      else
        (case obj_copy (logger_context lg) t s of
           (Inl e, s1) \<Rightarrow> (Inl e, s1)
         | (Inr saved, s1) \<Rightarrow>
             (case logger_bind lg tmp_values t s1 of
                (Inl e, s2) \<Rightarrow> (Inl e, s2)
              | (Inr tmp_logger, s2) \<Rightarrow> (Inr (saved, tmp_logger), s2))))"

text \<open>The two statements after the \<open>yield\<close>: \<open>clear()\<close>, then \<open>update(saved)\<close>.\<close>

definition tmp_bind_exit :: "logger \<Rightarrow> pyobj \<Rightarrow> tid \<Rightarrow> state \<Rightarrow> (pyexc + unit) \<times> state" where
  "tmp_bind_exit lg saved t s =
     (case class_tl_dict (current_context_class lg) t s of
        Inl e \<Rightarrow> (Inl e, s)
      | Inr a \<Rightarrow>
          (case class_tl_dict (current_context_class lg) t (dict_clear a s) of
             Inl e \<Rightarrow> (Inl e, dict_clear a s)
           | Inr a' \<Rightarrow> dict_update a' [ArgObj saved] Map.empty t (dict_clear a s)))"

text \<open>
  The statement \<open>with tmp_bind(logger, **tmp_values) as tmp_logger: block\<close>. When the
  block ends normally the generator is resumed and runs the two statements after the
  \<open>yield\<close>. When the block raises, \<open>contextmanager\<close> throws the exception into the
  generator at the \<open>yield\<close>; the generator has no handler and no \<open>finally\<close> there, so the
  exception leaves it at once and the \<open>with\<close> statement raises it again.
\<close>

definition with_tmp_bind ::
  "logger \<Rightarrow> kwargs \<Rightarrow> (logger \<Rightarrow> state \<Rightarrow> (pyexc + unit) \<times> state) \<Rightarrow> tid \<Rightarrow> state \<Rightarrow> (pyexc + unit) \<times> state" where
  "with_tmp_bind lg tmp_values block t s =
     (case tmp_bind_enter lg tmp_values t s of
        (Inl e, s1) \<Rightarrow> (Inl e, s1)
      | (Inr (saved, tmp_logger), s1) \<Rightarrow>
          (case block tmp_logger s1 of
             (Inl e, s2) \<Rightarrow> (Inl e, s2)
           | (Inr u, s2) \<Rightarrow> tmp_bind_exit lg saved t s2))"

text \<open>
  The contents of the context of a class as a thread observes it: the entries of the
  mapping that \<open>_dict\<close> resolves to.
\<close>

definition thread_context :: "cid \<Rightarrow> tid \<Rightarrow> state \<Rightarrow> key \<rightharpoonup> pyval" where
  "thread_context c t s =
     (case wrapper_dict (WRef c 0) t s of (a, s1) \<Rightarrow> entries (heap s1 a))"

subsection \<open>Invariant of the store and the frame of an operation\<close>

text \<open>
  In a store that the module's operations have built, every address held in a thread's
  slot has been allocated, and no two slots (of any classes and threads) hold the same
  mapping object.
\<close>

definition well_formed :: "state \<Rightarrow> bool" where
  "well_formed s =
     ((\<forall>c t a. tl_dict s c t = Some a \<longrightarrow> a < next_addr s)
      \<and> (\<forall>c t c' t' a. tl_dict s c t = Some a \<longrightarrow> tl_dict s c' t' = Some a \<longrightarrow> c = c' \<and> t = t'))"

text \<open>
  What an operation run by thread \<open>t\<close> may do to the store: it allocates, it fills slots
  of \<open>t\<close> with new addresses, it writes to mapping objects that \<open>t\<close>'s slots hold, and it
  adds entries to instance dictionaries. It leaves alone the class table, the slots of
  other threads, the slots \<open>t\<close> has already filled, every other allocated mapping object,
  and what the existing instances already hold.
\<close>

definition touches_only :: "tid \<Rightarrow> state \<Rightarrow> state \<Rightarrow> bool" where
  "touches_only t s s' =
     (next_addr s \<le> next_addr s'
      \<and> next_iid s \<le> next_iid s'
      \<and> next_cid s' = next_cid s
      \<and> dict_class_of s' = dict_class_of s
      \<and> class_name s' = class_name s
      \<and> (\<forall>c t'. t' \<noteq> t \<longrightarrow> tl_dict s' c t' = tl_dict s c t')
      \<and> (\<forall>c a. tl_dict s c t = Some a \<longrightarrow> tl_dict s' c t = Some a)
      \<and> (\<forall>c a. tl_dict s' c t = Some a \<longrightarrow> tl_dict s c t = Some a \<or> next_addr s \<le> a)
      \<and> (\<forall>a. a < next_addr s \<longrightarrow> (\<forall>c. tl_dict s c t \<noteq> Some a) \<longrightarrow> heap s' a = heap s a)
      \<and> (\<forall>i n a. i < next_iid s \<longrightarrow> inst_attrs s i n = Some a \<longrightarrow> inst_attrs s' i n = Some a))"

text \<open>From a well-formed store, an operation of thread \<open>t\<close> leads to a well-formed one within that frame.\<close>

definition step :: "tid \<Rightarrow> state \<Rightarrow> state \<Rightarrow> bool" where
  "step t s s' = (well_formed s \<longrightarrow> well_formed s' \<and> touches_only t s s')"


subsection \<open>A small store for concrete evaluation\<close>

text \<open>
  The store after \<open>T = wrap_dict(dict)\<close> and \<open>T(a=1)\<close> on thread 0, and a logger in
  thread-local mode whose context is that instance.
\<close>

definition ex_state :: state where
  "ex_state =
     \<lparr>heap = (\<lambda>a. PyDict Dict Map.empty)(0 := PyDict Dict [''a'' \<mapsto> PyInt 1]), next_addr = 1,
      class_name = (\<lambda>c. [])(0 := ''WrappedDict-0001''), dict_class_of = (\<lambda>c. Dict),
      tl_dict = (\<lambda>c t. None)(0 := [0 \<mapsto> 0]), next_cid = 1,
      inst_attrs = (\<lambda>i n. None), next_iid = 1\<rparr>"

definition ex_logger :: logger where
  "ex_logger = \<lparr>current_context_class = Wrapped 0, logger_context = Inst (WRef 0 0)\<rparr>"

text \<open>
  Two blocks for the \<open>with\<close> statement on thread 0. The first binds \<open>c=3\<close> through the
  yielded logger and \<open>d=4\<close> through the original logger, and ends normally. The second
  binds \<open>c=3\<close> through the yielded logger and then raises.
\<close>

definition ex_block :: "logger \<Rightarrow> state \<Rightarrow> (pyexc + unit) \<times> state" where
  "ex_block tmp_logger s =
     (case logger_bind tmp_logger [''c'' \<mapsto> PyInt 3] 0 s of
        (Inl e, s1) \<Rightarrow> (Inl e, s1)
      | (Inr l1, s1) \<Rightarrow>
          (case logger_bind ex_logger [''d'' \<mapsto> PyInt 4] 0 s1 of
             (Inl e, s2) \<Rightarrow> (Inl e, s2)
           | (Inr l2, s2) \<Rightarrow> (Inr (), s2)))"

definition ex_raising_block :: "logger \<Rightarrow> state \<Rightarrow> (pyexc + unit) \<times> state" where
  "ex_raising_block tmp_logger s =
     (case logger_bind tmp_logger [''c'' \<mapsto> PyInt 3] 0 s of
        (Inl e, s1) \<Rightarrow> (Inl e, s1)
      | (Inr l1, s1) \<Rightarrow> (Inl (Raised ''boom''), s1))"

text \<open>
  A store with one logger shared by two threads. After \<open>T = wrap_dict(dict)\<close>, thread 0
  makes the context \<open>T(z=9)\<close>, the instance 0 that \<open>ex_logger\<close> holds, and looks up
  \<open>copy\<close> and \<open>get\<close> on it; thread 1 then makes \<open>T(a=1)\<close>. So thread 0's context is
  \<open>{z: 9}\<close>, thread 1's is \<open>{a: 1}\<close>, and instance 0 holds the two methods of thread
  0's mapping. In \<open>ex_written_state\<close> thread 0 has further set \<open>k=7\<close> through the
  instance. \<open>ex_pass_block\<close> is the block \<open>pass\<close>.
\<close>

definition ex_shared_state :: state where
  "ex_shared_state =
     \<lparr>heap = (\<lambda>a. PyDict Dict Map.empty)
               (0 := PyDict Dict [''z'' \<mapsto> PyInt 9], 1 := PyDict Dict [''a'' \<mapsto> PyInt 1]),
      next_addr = 2,
      class_name = (\<lambda>c. [])(0 := ''WrappedDict-0001''), dict_class_of = (\<lambda>c. Dict),
      tl_dict = (\<lambda>c t. None)(0 := [0 \<mapsto> 0, 1 \<mapsto> 1]), next_cid = 1,
      inst_attrs = (\<lambda>i n. None)(0 := [''copy'' \<mapsto> 0, ''get'' \<mapsto> 0]), next_iid = 2\<rparr>"

definition ex_written_state :: state where
  "ex_written_state = wrapper_setitem (WRef 0 0) ''k'' (PyInt 7) 0 ex_shared_state"

definition ex_pass_block :: "logger \<Rightarrow> state \<Rightarrow> (pyexc + unit) \<times> state" where
  "ex_pass_block tmp_logger s = (Inr (), s)"

section \<open>Frame lemmas\<close>

subsection \<open>Every operation stays within its frame and keeps the store well-formed\<close>

lemma touches_only_refl: "touches_only t s s"
  by (simp add: touches_only_def)

lemma touches_only_trans:
  assumes a: "touches_only t s s1" and b: "touches_only t s1 s2"
  shows "touches_only t s s2"
proof -
  have a1: "next_addr s \<le> next_addr s1" and a2: "next_iid s \<le> next_iid s1"
    and a3: "next_cid s1 = next_cid s" and a4: "dict_class_of s1 = dict_class_of s"
    and a5: "class_name s1 = class_name s"
    and a6: "\<And>c t'. t' \<noteq> t \<Longrightarrow> tl_dict s1 c t' = tl_dict s c t'"
    and a7: "\<And>c x. tl_dict s c t = Some x \<Longrightarrow> tl_dict s1 c t = Some x"
    and a8: "\<And>c x. tl_dict s1 c t = Some x \<Longrightarrow> tl_dict s c t = Some x \<or> next_addr s \<le> x"
    and a9: "\<And>x. x < next_addr s \<Longrightarrow> (\<forall>c. tl_dict s c t \<noteq> Some x) \<Longrightarrow> heap s1 x = heap s x"
    and a10: "\<And>i n x. i < next_iid s \<Longrightarrow> inst_attrs s i n = Some x \<Longrightarrow> inst_attrs s1 i n = Some x"
    using a unfolding touches_only_def by blast+
  have b1: "next_addr s1 \<le> next_addr s2" and b2: "next_iid s1 \<le> next_iid s2"
    and b3: "next_cid s2 = next_cid s1" and b4: "dict_class_of s2 = dict_class_of s1"
    and b5: "class_name s2 = class_name s1"
    and b6: "\<And>c t'. t' \<noteq> t \<Longrightarrow> tl_dict s2 c t' = tl_dict s1 c t'"
    and b7: "\<And>c x. tl_dict s1 c t = Some x \<Longrightarrow> tl_dict s2 c t = Some x"
    and b8: "\<And>c x. tl_dict s2 c t = Some x \<Longrightarrow> tl_dict s1 c t = Some x \<or> next_addr s1 \<le> x"
    and b9: "\<And>x. x < next_addr s1 \<Longrightarrow> (\<forall>c. tl_dict s1 c t \<noteq> Some x) \<Longrightarrow> heap s2 x = heap s1 x"
    and b10: "\<And>i n x. i < next_iid s1 \<Longrightarrow> inst_attrs s1 i n = Some x \<Longrightarrow> inst_attrs s2 i n = Some x"
    using b unfolding touches_only_def by blast+
  have c8: "tl_dict s c t = Some x \<or> next_addr s \<le> x" if "tl_dict s2 c t = Some x" for c x
    using b8[OF that] a8[of c x] a1 by auto
  have c9: "heap s2 x = heap s x" if h: "x < next_addr s" "\<forall>c. tl_dict s c t \<noteq> Some x" for x
  proof -
    have "\<forall>c. tl_dict s1 c t \<noteq> Some x"
    proof
      fix c show "tl_dict s1 c t \<noteq> Some x" using a8[of c x] h by auto
    qed
    moreover have "x < next_addr s1" using h a1 by simp
    ultimately have "heap s2 x = heap s1 x" using b9 by blast
    then show ?thesis using a9[OF h] by simp
  qed
  have c10: "inst_attrs s2 i n = Some x" if "i < next_iid s" "inst_attrs s i n = Some x" for i n x
    using b10[of i n x] a10[OF that] that a2 by simp
  show ?thesis
    unfolding touches_only_def
    using a1 b1 a2 b2 a3 b3 a4 b4 a5 b5 c8 c9 c10
    by (simp add: a6 b6 a7 b7)
qed

lemma step_refl: "step t s s"
  by (simp add: step_def touches_only_refl)

lemma step_trans: "step t s s1 \<Longrightarrow> step t s1 s2 \<Longrightarrow> step t s s2"
  unfolding step_def using touches_only_trans by blast

lemma step_wrapper_dict: "step t s (snd (wrapper_dict self t s))"
  unfolding step_def wrapper_dict_def well_formed_def touches_only_def
  by (auto split: option.splits simp: less_Suc_eq)

lemma step_wrapper_iter: "step t s (snd (wrapper_iter self t s))"
  using step_wrapper_dict[of t s self]
  by (cases "wrapper_dict self t s") (simp add: wrapper_iter_def)

lemma step_wrapper_len: "step t s (snd (wrapper_len self t s))"
  using step_wrapper_dict[of t s self]
  by (cases "wrapper_dict self t s") (simp add: wrapper_len_def)

lemma wrapper_dict_slot:
  "wrapper_dict self t s = (a, s1) \<Longrightarrow> tl_dict s1 (wclass self) t = Some a"
  by (auto simp: wrapper_dict_def split: option.splits)


lemma step_assume: "(well_formed s \<Longrightarrow> step t s s') \<Longrightarrow> step t s s'"
  by (auto simp: step_def)

lemma step_wf: "step t s s' \<Longrightarrow> well_formed s \<Longrightarrow> well_formed s'"
  by (simp add: step_def)

lemma step_slot: "step t s s' \<Longrightarrow> well_formed s \<Longrightarrow> tl_dict s c t = Some a \<Longrightarrow> tl_dict s' c t = Some a"
  by (simp add: step_def touches_only_def)

lemma step_heap_write: "tl_dict s c t = Some a \<Longrightarrow> step t s (s\<lparr>heap := (heap s)(a := d)\<rparr>)"
  unfolding step_def well_formed_def touches_only_def by auto

lemma step_new_inst:
  "step t s (s\<lparr>inst_attrs := (inst_attrs s)(next_iid s := Map.empty), next_iid := Suc (next_iid s)\<rparr>)"
  unfolding step_def well_formed_def touches_only_def by auto

lemma step_setattr:
  "inst_attrs s i n = None \<Longrightarrow> step t s (s\<lparr>inst_attrs := (inst_attrs s)(i := (inst_attrs s i)(n \<mapsto> a))\<rparr>)"
  unfolding step_def well_formed_def touches_only_def by auto

lemma wrapper_dict_inst_attrs: "inst_attrs (snd (wrapper_dict self t s)) = inst_attrs s"
  by (auto simp: wrapper_dict_def split: option.splits)

lemma step_wrapper_getattr:
  assumes "inst_attrs s (wid self) name = None"
  shows "step t s (snd (wrapper_getattr self name t s))"
proof -
  obtain a s1 where w: "wrapper_dict self t s = (a, s1)" by (cases "wrapper_dict self t s")
  have s1: "step t s s1" using step_wrapper_dict[of t s self] w by simp
  have n: "inst_attrs s1 (wid self) name = None"
    using wrapper_dict_inst_attrs[of self t s] w assms by simp
  show ?thesis
    using s1 step_trans[OF s1 step_setattr[OF n, of t a]]
    by (simp add: wrapper_getattr_def w)
qed

lemma step_lookup_attr: "step t s (snd (lookup_attr self name t s))"
  by (simp add: lookup_attr_def step_refl step_wrapper_getattr split: option.splits)

lemma step_positional_items: "step t s (snd (positional_items args t s))"
proof (induction args t s rule: positional_items.induct)
  case (4 r t s)
  show ?case using step_lookup_attr[of t s r "''keys''"]
    by (auto split: prod.splits sum.splits)
qed (simp_all add: step_refl)

lemma step_dict_update:
  assumes "tl_dict s c t = Some a"
  shows "step t s (snd (dict_update a args kw t s))"
proof (rule step_assume)
  assume wf: "well_formed s"
  obtain r s1 where p: "positional_items args t s = (r, s1)" by (cases "positional_items args t s")
  have s1: "step t s s1" using step_positional_items[of t s args] p by simp
  have sl: "tl_dict s1 c t = Some a" using step_slot[OF s1 wf assms] .
  show "step t s (snd (dict_update a args kw t s))"
    using s1 step_trans[OF s1 step_heap_write[OF sl]]
    by (auto simp: dict_update_def p split: sum.splits)
qed

lemma step_wrapper_init: "step t s (snd (wrapper_init self args kw t s))"
proof -
  obtain a s1 where w: "wrapper_dict self t s = (a, s1)" by (cases "wrapper_dict self t s")
  have s1: "step t s s1" using step_wrapper_dict[of t s self] w by simp
  have sl: "tl_dict s1 (wclass self) t = Some a" using wrapper_dict_slot[OF w] .
  show ?thesis
    using step_trans[OF s1 step_dict_update[OF sl]]
    by (simp add: wrapper_init_def w)
qed

lemma step_construct: "step t s (snd (construct c args kw t s))"
  using step_trans[OF step_new_inst step_wrapper_init]
  by (auto simp: construct_def split: prod.splits sum.splits)
    (metis snd_conv)+

lemma step_wrapper_setitem: "step t s (wrapper_setitem self k v t s)"
proof -
  obtain a s1 where w: "wrapper_dict self t s = (a, s1)" by (cases "wrapper_dict self t s")
  have s1: "step t s s1" using step_wrapper_dict[of t s self] w by simp
  have sl: "tl_dict s1 (wclass self) t = Some a" using wrapper_dict_slot[OF w] .
  show ?thesis
    using step_trans[OF s1 step_heap_write[OF sl]]
    by (simp add: wrapper_setitem_def w dict_setitem_def)
qed

lemma step_call_class: "step t s (snd (call_class C args kw t s))"
proof (cases C)
  case (Backing dc)
  then show ?thesis using step_positional_items[of t s args]
    by (auto split: prod.splits sum.splits)
next
  case (Wrapped c)
  then show ?thesis using step_construct[of t s c args kw]
    by (auto split: prod.splits sum.splits)
qed

lemma step_logger_bind: "step t s (snd (logger_bind lg kw t s))"
  using step_call_class[of t s "current_context_class lg" "[ArgObj (logger_context lg)]" kw]
  by (auto simp: logger_bind_def split: prod.splits sum.splits)

lemma step_obj_copy: "step t s (snd (obj_copy x t s))"
proof (cases x)
  case (Inst r)
  then show ?thesis using step_lookup_attr[of t s r "''copy''"]
    by (auto split: prod.splits sum.splits)
next
  case (Plain d)
  then show ?thesis by (simp add: step_refl)
qed

lemma step_tmp_bind_enter: "step t s (snd (tmp_bind_enter lg kw t s))"
proof -
  obtain r s1 where c: "obj_copy (logger_context lg) t s = (r, s1)"
    by (cases "obj_copy (logger_context lg) t s")
  have s1: "step t s s1" using step_obj_copy[of t s "logger_context lg"] c by simp
  have s2: "step t s (snd (logger_bind lg kw t s1))"
    using step_trans[OF s1 step_logger_bind] .
  show ?thesis using s1 s2
    by (auto simp: tmp_bind_enter_def c step_refl split: prod.splits sum.splits)
qed

lemma step_dict_clear: "tl_dict s c t = Some a \<Longrightarrow> step t s (dict_clear a s)"
  by (simp add: dict_clear_def step_heap_write)

lemma dict_clear_tl [simp]: "tl_dict (dict_clear a s) = tl_dict s"
  by (simp add: dict_clear_def)

lemma step_tmp_bind_exit: "step t s (snd (tmp_bind_exit lg saved t s))"
proof (cases "current_context_class lg")
  case (Backing dc)
  then show ?thesis by (simp add: tmp_bind_exit_def step_refl)
next
  case (Wrapped c)
  show ?thesis
  proof (cases "tl_dict s c t")
    case None
    then show ?thesis using Wrapped by (simp add: tmp_bind_exit_def step_refl)
  next
    case (Some a)
    have s1: "step t s (dict_clear a s)" using step_dict_clear[OF Some] .
    have sl: "tl_dict (dict_clear a s) c t = Some a" using Some by simp
    show ?thesis
      using step_trans[OF s1 step_dict_update[OF sl]] Wrapped Some
      by (simp add: tmp_bind_exit_def)
  qed
qed


subsection \<open>Which observed contexts an operation can change\<close>

text \<open>
  Reading, allocating and caching change no observed context at all; a write to the
  mapping in the slot of a class and thread changes the context of that class and
  thread only.
\<close>

lemma thread_context_Some: "tl_dict s c t = Some a \<Longrightarrow> thread_context c t s = entries (heap s a)"
  by (simp add: thread_context_def wrapper_dict_def)

lemma thread_context_None: "tl_dict s c t = None \<Longrightarrow> thread_context c t s = Map.empty"
  by (simp add: thread_context_def wrapper_dict_def)

lemma wrapper_dict_view:
  assumes "well_formed s"
  shows "thread_context c' t' (snd (wrapper_dict self t s)) = thread_context c' t' s"
proof (cases "tl_dict s (wclass self) t")
  case (Some a)
  then show ?thesis by (simp add: wrapper_dict_def)
next
  case None
  have fresh: "\<And>c t a. tl_dict s c t = Some a \<Longrightarrow> a \<noteq> next_addr s"
    using assms unfolding well_formed_def by fastforce
  show ?thesis
    using None fresh
    by (cases "tl_dict s c' t'") (auto simp: thread_context_def wrapper_dict_def)
qed

lemma setattr_view [simp]: "thread_context c t (s\<lparr>inst_attrs := f\<rparr>) = thread_context c t s"
  by (simp add: thread_context_def wrapper_dict_def split: option.splits)

lemma new_inst_view [simp]:
  "thread_context c t (s\<lparr>inst_attrs := f, next_iid := n\<rparr>) = thread_context c t s"
  by (simp add: thread_context_def wrapper_dict_def split: option.splits)

lemma lookup_attr_view:
  assumes "well_formed s"
  shows "thread_context c' t' (snd (lookup_attr self name t s)) = thread_context c' t' s"
  using wrapper_dict_view[OF assms, of c' t' self t]
  by (auto simp: lookup_attr_def wrapper_getattr_def split: option.splits prod.splits)

lemma positional_items_view:
  assumes "well_formed s"
  shows "thread_context c' t' (snd (positional_items args t s)) = thread_context c' t' s"
proof (cases "(args, t, s)" rule: positional_items.cases)
  case (4 r t0 s0)
  then show ?thesis using lookup_attr_view[OF assms, of c' t' r "''keys''" t]
    by (auto split: prod.splits sum.splits)
qed auto

lemma heap_write_view:
  assumes "well_formed s" "tl_dict s c t = Some a" "c' \<noteq> c \<or> t' \<noteq> t"
  shows "thread_context c' t' (s\<lparr>heap := (heap s)(a := d)\<rparr>) = thread_context c' t' s"
proof (cases "tl_dict s c' t'")
  case None
  then show ?thesis by (simp add: thread_context_None)
next
  case (Some b)
  have "b \<noteq> a" using assms Some unfolding well_formed_def by blast
  then show ?thesis using Some by (simp add: thread_context_Some)
qed

lemma dict_update_view:
  assumes wf: "well_formed s" and sl: "tl_dict s c t = Some a" and ne: "c' \<noteq> c \<or> t' \<noteq> t"
  shows "thread_context c' t' (snd (dict_update a args kw t s)) = thread_context c' t' s"
proof -
  obtain r s1 where p: "positional_items args t s = (r, s1)" by (cases "positional_items args t s")
  have st: "step t s s1" using step_positional_items[of t s args] p by simp
  have wf1: "well_formed s1" using step_wf[OF st wf] .
  have sl1: "tl_dict s1 c t = Some a" using step_slot[OF st wf sl] .
  have v1: "thread_context c' t' s1 = thread_context c' t' s"
    using positional_items_view[OF wf, of c' t' args t] p by simp
  show ?thesis
    using v1 heap_write_view[OF wf1 sl1 ne]
    by (auto simp: dict_update_def p split: sum.splits)
qed

lemma wrapper_init_view:
  assumes wf: "well_formed s" and ne: "c' \<noteq> wclass self \<or> t' \<noteq> t"
  shows "thread_context c' t' (snd (wrapper_init self args kw t s)) = thread_context c' t' s"
proof -
  obtain a s1 where w: "wrapper_dict self t s = (a, s1)" by (cases "wrapper_dict self t s")
  have st: "step t s s1" using step_wrapper_dict[of t s self] w by simp
  have wf1: "well_formed s1" using step_wf[OF st wf] .
  have sl: "tl_dict s1 (wclass self) t = Some a" using wrapper_dict_slot[OF w] .
  have v1: "thread_context c' t' s1 = thread_context c' t' s"
    using wrapper_dict_view[OF wf, of c' t' self t] w by simp
  show ?thesis
    using v1 dict_update_view[OF wf1 sl ne]
    by (simp add: wrapper_init_def w)
qed

lemma construct_view:
  assumes wf: "well_formed s" and ne: "c' \<noteq> c \<or> t' \<noteq> t"
  shows "thread_context c' t' (snd (construct c args kw t s)) = thread_context c' t' s"
proof -
  let ?s0 = "s\<lparr>inst_attrs := (inst_attrs s)(next_iid s := Map.empty), next_iid := Suc (next_iid s)\<rparr>"
  have wf0: "well_formed ?s0" using step_wf[OF step_new_inst wf] .
  have "thread_context c' t' (snd (wrapper_init (WRef c (next_iid s)) args kw t ?s0)) = thread_context c' t' ?s0"
    using wrapper_init_view[OF wf0, of c' "WRef c (next_iid s)" t' t args kw] ne by simp
  then show ?thesis
    by (auto simp: construct_def split: prod.splits sum.splits)
qed

lemma wrapper_setitem_view:
  assumes wf: "well_formed s" and ne: "c' \<noteq> wclass self \<or> t' \<noteq> t"
  shows "thread_context c' t' (wrapper_setitem self k v t s) = thread_context c' t' s"
proof -
  obtain a s1 where w: "wrapper_dict self t s = (a, s1)" by (cases "wrapper_dict self t s")
  have st: "step t s s1" using step_wrapper_dict[of t s self] w by simp
  have wf1: "well_formed s1" using step_wf[OF st wf] .
  have sl: "tl_dict s1 (wclass self) t = Some a" using wrapper_dict_slot[OF w] .
  have v1: "thread_context c' t' s1 = thread_context c' t' s"
    using wrapper_dict_view[OF wf, of c' t' self t] w by simp
  show ?thesis
    using v1 heap_write_view[OF wf1 sl ne]
    by (simp add: wrapper_setitem_def w dict_setitem_def)
qed

lemma obj_copy_view:
  assumes "well_formed s"
  shows "thread_context c' t' (snd (obj_copy x t s)) = thread_context c' t' s"
proof (cases x)
  case (Inst r)
  then show ?thesis using lookup_attr_view[OF assms, of c' t' r "''copy''" t]
    by (auto split: prod.splits sum.splits)
next
  case (Plain d)
  then show ?thesis by simp
qed

lemma logger_bind_view:
  assumes wf: "well_formed s" and ne: "current_context_class lg \<noteq> Wrapped c' \<or> t' \<noteq> t"
  shows "thread_context c' t' (snd (logger_bind lg kw t s)) = thread_context c' t' s"
proof (cases "current_context_class lg")
  case (Backing dc)
  then show ?thesis
    using positional_items_view[OF wf, of c' t' "[ArgObj (logger_context lg)]" t]
    by (auto simp: logger_bind_def split: prod.splits sum.splits)
next
  case (Wrapped c)
  then have "c' \<noteq> c \<or> t' \<noteq> t" using ne by auto
  then show ?thesis
    using construct_view[OF wf, of c' c t' t "[ArgObj (logger_context lg)]" kw] Wrapped
    by (auto simp: logger_bind_def split: prod.splits sum.splits)
qed

lemma tmp_bind_enter_view:
  assumes wf: "well_formed s" and ne: "current_context_class lg \<noteq> Wrapped c' \<or> t' \<noteq> t"
  shows "thread_context c' t' (snd (tmp_bind_enter lg kw t s)) = thread_context c' t' s"
proof -
  obtain r s1 where c: "obj_copy (logger_context lg) t s = (r, s1)"
    by (cases "obj_copy (logger_context lg) t s")
  have st: "step t s s1" using step_obj_copy[of t s "logger_context lg"] c by simp
  have wf1: "well_formed s1" using step_wf[OF st wf] .
  have v1: "thread_context c' t' s1 = thread_context c' t' s"
    using obj_copy_view[OF wf, of c' t' "logger_context lg" t] c by simp
  have v2: "thread_context c' t' (snd (logger_bind lg kw t s1)) = thread_context c' t' s1"
    using logger_bind_view[OF wf1 ne] .
  show ?thesis using v1 v2
    by (auto simp: tmp_bind_enter_def c split: prod.splits sum.splits)
qed

lemma tmp_bind_exit_view:
  assumes wf: "well_formed s" and ne: "current_context_class lg \<noteq> Wrapped c' \<or> t' \<noteq> t"
  shows "thread_context c' t' (snd (tmp_bind_exit lg saved t s)) = thread_context c' t' s"
proof (cases "current_context_class lg")
  case (Backing dc)
  then show ?thesis by (simp add: tmp_bind_exit_def)
next
  case (Wrapped c)
  then have ne': "c' \<noteq> c \<or> t' \<noteq> t" using ne by auto
  show ?thesis
  proof (cases "tl_dict s c t")
    case None
    then show ?thesis using Wrapped by (simp add: tmp_bind_exit_def)
  next
    case (Some a)
    have st: "step t s (dict_clear a s)" using step_dict_clear[OF Some] .
    have wf1: "well_formed (dict_clear a s)" using step_wf[OF st wf] .
    have sl: "tl_dict (dict_clear a s) c t = Some a" using Some by simp
    have v1: "thread_context c' t' (dict_clear a s) = thread_context c' t' s"
      using heap_write_view[OF wf Some ne'] by (simp add: dict_clear_def)
    show ?thesis
      using v1 dict_update_view[OF wf1 sl ne'] Wrapped Some
      by (simp add: tmp_bind_exit_def)
  qed
qed

subsection \<open>Stores that the operations build\<close>

lemma ex_state_reached:
  "snd (construct 0 [] [''a'' \<mapsto> PyInt 1] 0 (snd (wrap_dict Dict ''0001'' init_state))) = ex_state"
  by (simp add: construct_def wrapper_init_def wrapper_dict_def dict_update_def wrap_dict_def
      init_state_def ex_state_def fun_eq_iff)

lemma well_formed_init: "well_formed init_state"
  by (simp add: well_formed_def init_state_def)

lemma well_formed_wrap_dict: "well_formed s \<Longrightarrow> well_formed (snd (wrap_dict dc u s))"
  unfolding well_formed_def wrap_dict_def
  by (auto split: if_splits)

lemma well_formed_ex_state: "well_formed ex_state"
  by (simp add: well_formed_def ex_state_def)


subsection \<open>Slots, instances and forwarded lookups\<close>

lemma step_other_slot:
  "step t s s' \<Longrightarrow> well_formed s \<Longrightarrow> t' \<noteq> t \<Longrightarrow> tl_dict s' c t' = tl_dict s c t'"
  by (simp add: step_def touches_only_def)

lemma wrapper_setitem_written:
  "thread_context (wclass self) t (wrapper_setitem self k v t s) k = Some v"
  by (auto simp: thread_context_def wrapper_setitem_def wrapper_dict_def dict_setitem_def
      split: option.splits)

lemma wrap_dict_fresh_empty: "thread_context (next_cid s) t (snd (wrap_dict dc u s)) = Map.empty"
  by (simp add: thread_context_def wrapper_dict_def wrap_dict_def)







lemma copy_in_dict_attrs: "''copy'' \<in> set (dict_attrs dc)"
  by (simp add: dict_attrs_def)

lemma update_in_dict_attrs: "''update'' \<in> set (dict_attrs dc)"
  by (simp add: dict_attrs_def)

text \<open>A first lookup of a name the mapping has: the method of the calling thread's mapping, stored on the instance.\<close>

lemma lookup_attr_first:
  assumes "inst_attrs s (wid self) name = None" and "wrapper_dict self t s = (a, s1)"
    and "name \<in> set (dict_attrs (klass (heap s1 a)))"
  shows "lookup_attr self name t s =
           (Inr (BoundMethod a name),
            s1\<lparr>inst_attrs := (inst_attrs s1)(wid self := (inst_attrs s1 (wid self))(name \<mapsto> a))\<rparr>)"
  using assms by (simp add: lookup_attr_def wrapper_getattr_def)

lemma lookup_attr_cached:
  "inst_attrs s (wid self) name = Some a \<Longrightarrow> lookup_attr self name t s = (Inr (BoundMethod a name), s)"
  by (simp add: lookup_attr_def)


text \<open>A constructor call with keyword arguments only.\<close>

lemma construct_kw_only:
  "\<exists>s'. construct c [] kw t s = (Inr (WRef c (next_iid s)), s')
        \<and> inst_attrs s' (next_iid s) = Map.empty
        \<and> next_iid s' = Suc (next_iid s)
        \<and> tl_dict s' c t \<noteq> None
        \<and> thread_context c t s' = thread_context c t s ++ kw"
  by (cases "tl_dict s c t")
    (auto simp: construct_def wrapper_init_def wrapper_dict_def dict_update_def thread_context_def)


lemma step_keeps_attr:
  assumes "step t s s'" and "well_formed s" and "i < next_iid s" and "inst_attrs s i n = Some a"
  shows "inst_attrs s' i n = Some a"
  using assms by (simp add: step_def touches_only_def)

lemma step_next_iid: "step t s s' \<Longrightarrow> well_formed s \<Longrightarrow> next_iid s \<le> next_iid s'"
  by (simp add: step_def touches_only_def)

lemma other_thread_other_object:
  assumes "well_formed s" and "tl_dict s (wclass self) t = Some a" and "t' \<noteq> t"
  shows "fst (wrapper_dict self t' s) \<noteq> a"
proof (cases "tl_dict s (wclass self) t'")
  case None
  have "a < next_addr s" using assms(1,2) unfolding well_formed_def by blast
  then show ?thesis using None by (simp add: wrapper_dict_def)
next
  case (Some b)
  have "b \<noteq> a" using assms Some unfolding well_formed_def by blast
  then show ?thesis using Some by (simp add: wrapper_dict_def)
qed

lemma dict_update_kw:
  "dict_update a [] kw t s =
     (Inr (), s\<lparr>heap := (heap s)(a := PyDict (klass (heap s a)) (entries (heap s a) ++ kw))\<rparr>)"
  by (simp add: dict_update_def)

lemma dict_update_kw_context:
  assumes "tl_dict s c t = Some a"
  shows "thread_context c t (snd (dict_update a [] kw t' s)) = thread_context c t s ++ kw"
  using assms by (simp add: dict_update_kw thread_context_Some)

subsection \<open>Construction\<close>

text \<open>Construction: what each form of the arguments does to the thread's context.\<close>

lemma construct_same_class_arg:
  "\<exists>s'. construct c (ArgObj (Inst (WRef c j)) # rest) kw t s = (Inr (WRef c (next_iid s)), s')
        \<and> thread_context c t s' = thread_context c t s ++ kw"
  by (cases "tl_dict s c t")
    (auto simp: construct_def wrapper_init_def wrapper_dict_def dict_update_def thread_context_def)

lemma construct_plain_arg:
  "\<exists>s'. construct c [ArgObj (Plain d)] kw t s = (Inr (WRef c (next_iid s)), s')
        \<and> thread_context c t s' = thread_context c t s ++ entries d ++ kw"
  by (cases "tl_dict s c t")
    (auto simp: construct_def wrapper_init_def wrapper_dict_def dict_update_def thread_context_def)

lemma construct_pairs_arg:
  "\<exists>s'. construct c [ArgPairs ps] kw t s = (Inr (WRef c (next_iid s)), s')
        \<and> thread_context c t s' = thread_context c t s ++ map_of (rev ps) ++ kw"
  by (cases "tl_dict s c t")
    (auto simp: construct_def wrapper_init_def wrapper_dict_def dict_update_def thread_context_def)

lemma dict_update_keeps_keys:
  assumes wf: "well_formed s" and sl: "tl_dict s c t = Some a"
  shows "dom (thread_context c t s) \<subseteq> dom (thread_context c t (snd (dict_update a args kw t s)))"
proof -
  obtain r s1 where p: "positional_items args t s = (r, s1)" by (cases "positional_items args t s")
  have st: "step t s s1" using step_positional_items[of t s args] p by simp
  have sl1: "tl_dict s1 c t = Some a" using step_slot[OF st wf sl] .
  have v1: "thread_context c t s1 = thread_context c t s"
    using positional_items_view[OF wf, of c t args t] p by simp
  show ?thesis
  proof (cases r)
    case (Inl e)
    then show ?thesis using v1 by (simp add: dict_update_def p)
  next
    case (Inr m)
    have "thread_context c t (snd (dict_update a args kw t s)) = thread_context c t s1 ++ m ++ kw"
      using Inr sl1 by (simp add: dict_update_def p thread_context_Some)
    then show ?thesis using v1 by auto
  qed
qed

lemma wrapper_init_keeps_keys:
  assumes wf: "well_formed s"
  shows "dom (thread_context (wclass self) t s)
           \<subseteq> dom (thread_context (wclass self) t (snd (wrapper_init self args kw t s)))"
proof -
  obtain a s1 where w: "wrapper_dict self t s = (a, s1)" by (cases "wrapper_dict self t s")
  have st: "step t s s1" using step_wrapper_dict[of t s self] w by simp
  have wf1: "well_formed s1" using step_wf[OF st wf] .
  have sl: "tl_dict s1 (wclass self) t = Some a" using wrapper_dict_slot[OF w] .
  have v1: "thread_context (wclass self) t s1 = thread_context (wclass self) t s"
    using wrapper_dict_view[OF wf, of "wclass self" t self t] w by simp
  show ?thesis
    using dict_update_keeps_keys[OF wf1 sl, of "[]" kw] dict_update_keeps_keys[OF wf1 sl, of args kw] v1
    by (simp add: wrapper_init_def w)
qed

lemma construct_keeps_keys:
  assumes wf: "well_formed s"
  shows "dom (thread_context c t s) \<subseteq> dom (thread_context c t (snd (construct c args kw t s)))"
proof -
  let ?s0 = "s\<lparr>inst_attrs := (inst_attrs s)(next_iid s := Map.empty), next_iid := Suc (next_iid s)\<rparr>"
  have wf0: "well_formed ?s0" using step_wf[OF step_new_inst wf] .
  have "dom (thread_context c t ?s0)
          \<subseteq> dom (thread_context c t (snd (wrapper_init (WRef c (next_iid s)) args kw t ?s0)))"
    using wrapper_init_keeps_keys[OF wf0, of "WRef c (next_iid s)" t args kw] by simp
  then show ?thesis
    by (auto simp: construct_def split: prod.splits sum.splits)
qed

subsection \<open>The steps of tmp_bind\<close>



lemma obj_copy_thread_local:
  assumes "tl_dict s c t = Some a"
    and "inst_attrs s i ''copy'' = None \<or> inst_attrs s i ''copy'' = Some a"
  shows "\<exists>s'. obj_copy (Inst (WRef c i)) t s = (Inr (Plain (heap s a)), s')
           \<and> tl_dict s' = tl_dict s \<and> heap s' = heap s \<and> next_iid s' = next_iid s"
  using assms copy_in_dict_attrs
  by (auto simp: lookup_attr_def wrapper_getattr_def wrapper_dict_def dict_copy_def)

lemma logger_bind_thread_local:
  assumes "current_context_class lg = Wrapped c" and "logger_context lg = Inst (WRef c i)"
    and "tl_dict s c t = Some a"
  shows "\<exists>s'. logger_bind lg kw t s = (Inr (lg\<lparr>logger_context := Inst (WRef c (next_iid s))\<rparr>), s')
           \<and> tl_dict s' = tl_dict s
           \<and> heap s' = (heap s)(a := PyDict (klass (heap s a)) (entries (heap s a) ++ kw))"
  using assms
  by (auto simp: logger_bind_def construct_def wrapper_init_def wrapper_dict_def dict_update_def)

lemma tmp_bind_enter_thread_local:
  assumes cc: "current_context_class lg = Wrapped c" and cx: "logger_context lg = Inst (WRef c i)"
    and sl: "tl_dict s c t = Some a"
    and ca: "inst_attrs s i ''copy'' = None \<or> inst_attrs s i ''copy'' = Some a"
  shows "\<exists>s2. tmp_bind_enter lg kw t s
                = (Inr (Plain (heap s a), lg\<lparr>logger_context := Inst (WRef c (next_iid s))\<rparr>), s2)
           \<and> tl_dict s2 = tl_dict s
           \<and> heap s2 = (heap s)(a := PyDict (klass (heap s a)) (entries (heap s a) ++ kw))"
proof -
  obtain s1 where c1: "obj_copy (Inst (WRef c i)) t s = (Inr (Plain (heap s a)), s1)"
    and t1: "tl_dict s1 = tl_dict s" and h1: "heap s1 = heap s" and n1: "next_iid s1 = next_iid s"
    using obj_copy_thread_local[OF sl ca] by blast
  have sl1: "tl_dict s1 c t = Some a" using sl t1 by simp
  obtain s2 where b: "logger_bind lg kw t s1 = (Inr (lg\<lparr>logger_context := Inst (WRef c (next_iid s1))\<rparr>), s2)"
    and t2: "tl_dict s2 = tl_dict s1"
    and h2: "heap s2 = (heap s1)(a := PyDict (klass (heap s1 a)) (entries (heap s1 a) ++ kw))"
    using logger_bind_thread_local[OF cc cx sl1, of kw] by blast
  have "tmp_bind_enter lg kw t s
          = (Inr (Plain (heap s a), lg\<lparr>logger_context := Inst (WRef c (next_iid s))\<rparr>), s2)"
    using c1 b n1 cc cx by (simp add: tmp_bind_enter_def)
  then show ?thesis using t1 t2 h1 h2 by simp
qed

lemma tmp_bind_exit_in_place:
  assumes "current_context_class lg = Wrapped c" and "tl_dict s c t = Some a"
  shows "tmp_bind_exit lg (Plain d) t s
           = (Inr (), s\<lparr>heap := (heap s)(a := PyDict (klass (heap s a)) (entries d))\<rparr>)"
  using assms by (simp add: tmp_bind_exit_def dict_clear_def dict_update_def)

text \<open>A block that raises: the two statements after the \<open>yield\<close> are not run.\<close>

lemma with_tmp_bind_block_raises:
  assumes "tmp_bind_enter lg kw t s = (Inr (saved, tmp_logger), s2)"
    and "block tmp_logger s2 = (Inl e, s3)"
  shows "with_tmp_bind lg kw block t s = (Inl e, s3)"
  using assms by (simp add: with_tmp_bind_def)

lemma with_tmp_bind_block_returns:
  assumes "tmp_bind_enter lg kw t s = (Inr (saved, tmp_logger), s2)"
    and "block tmp_logger s2 = (Inr u, s3)"
  shows "with_tmp_bind lg kw block t s = tmp_bind_exit lg saved t s3"
  using assms by (simp add: with_tmp_bind_def)

subsection \<open>Evaluation on the small store\<close>

lemma thread_context_ex_state: "thread_context 0 0 ex_state = [''a'' \<mapsto> PyInt 1]"
  by (simp add: thread_context_def wrapper_dict_def ex_state_def)

lemma ex_block_runs:
  assumes "current_context_class l = Wrapped 0" and "logger_context l = Inst (WRef 0 i)"
    and "tl_dict s 0 0 = Some a"
  shows "\<exists>s3. ex_block l s = (Inr (), s3) \<and> tl_dict s3 = tl_dict s
           \<and> heap s3 = (heap s)(a := PyDict (klass (heap s a))
                                   (entries (heap s a) ++ [''c'' \<mapsto> PyInt 3] ++ [''d'' \<mapsto> PyInt 4]))"
proof -
  obtain s1 where b1: "logger_bind l [''c'' \<mapsto> PyInt 3] 0 s
                         = (Inr (l\<lparr>logger_context := Inst (WRef 0 (next_iid s))\<rparr>), s1)"
    and t1: "tl_dict s1 = tl_dict s"
    and h1: "heap s1 = (heap s)(a := PyDict (klass (heap s a)) (entries (heap s a) ++ [''c'' \<mapsto> PyInt 3]))"
    using logger_bind_thread_local[OF assms, of "[''c'' \<mapsto> PyInt 3]"] by blast
  have sl1: "tl_dict s1 0 0 = Some a" using assms(3) t1 by simp
  have cc: "current_context_class ex_logger = Wrapped 0"
    and cx: "logger_context ex_logger = Inst (WRef 0 0)"
    by (simp_all add: ex_logger_def)
  obtain s2 where b2: "logger_bind ex_logger [''d'' \<mapsto> PyInt 4] 0 s1
                         = (Inr (ex_logger\<lparr>logger_context := Inst (WRef 0 (next_iid s1))\<rparr>), s2)"
    and t2: "tl_dict s2 = tl_dict s1"
    and h2: "heap s2 = (heap s1)(a := PyDict (klass (heap s1 a)) (entries (heap s1 a) ++ [''d'' \<mapsto> PyInt 4]))"
    using logger_bind_thread_local[OF cc cx sl1, of "[''d'' \<mapsto> PyInt 4]"] by blast
  have "ex_block l s = (Inr (), s2)" using b1 b2 by (simp add: ex_block_def)
  then show ?thesis using t1 t2 h1 h2 by simp
qed

lemma ex_raising_block_raises:
  assumes "current_context_class l = Wrapped 0" and "logger_context l = Inst (WRef 0 i)"
    and "tl_dict s 0 0 = Some a"
  shows "\<exists>s3. ex_raising_block l s = (Inl (Raised ''boom''), s3) \<and> tl_dict s3 = tl_dict s
           \<and> heap s3 = (heap s)(a := PyDict (klass (heap s a)) (entries (heap s a) ++ [''c'' \<mapsto> PyInt 3]))"
proof -
  obtain s1 where b1: "logger_bind l [''c'' \<mapsto> PyInt 3] 0 s
                         = (Inr (l\<lparr>logger_context := Inst (WRef 0 (next_iid s))\<rparr>), s1)"
    and t1: "tl_dict s1 = tl_dict s"
    and h1: "heap s1 = (heap s)(a := PyDict (klass (heap s a)) (entries (heap s a) ++ [''c'' \<mapsto> PyInt 3]))"
    using logger_bind_thread_local[OF assms, of "[''c'' \<mapsto> PyInt 3]"] by blast
  have "ex_raising_block l s = (Inl (Raised ''boom''), s1)" using b1 by (simp add: ex_raising_block_def)
  then show ?thesis using t1 h1 by simp
qed

text \<open>Entering the scope on the small store with \<open>b=2\<close>.\<close>

lemma ex_enter:
  "\<exists>s2. tmp_bind_enter ex_logger [''b'' \<mapsto> PyInt 2] 0 ex_state
            = (Inr (Plain (PyDict Dict [''a'' \<mapsto> PyInt 1]),
                    ex_logger\<lparr>logger_context := Inst (WRef 0 1)\<rparr>), s2)
         \<and> tl_dict s2 0 0 = Some 0
         \<and> heap s2 0 = PyDict Dict [''a'' \<mapsto> PyInt 1, ''b'' \<mapsto> PyInt 2]"
proof -
  have cc: "current_context_class ex_logger = Wrapped 0"
    and cx: "logger_context ex_logger = Inst (WRef 0 0)"
    by (simp_all add: ex_logger_def)
  have sl: "tl_dict ex_state 0 0 = Some 0" by (simp add: ex_state_def)
  have ca: "inst_attrs ex_state 0 ''copy'' = None \<or> inst_attrs ex_state 0 ''copy'' = Some 0"
    by (simp add: ex_state_def)
  have h: "heap ex_state 0 = PyDict Dict [''a'' \<mapsto> PyInt 1]" and n: "next_iid ex_state = 1"
    by (simp_all add: ex_state_def)
  show ?thesis
    using tmp_bind_enter_thread_local[OF cc cx sl ca, of "[''b'' \<mapsto> PyInt 2]"] sl h n
    by auto
qed

subsection \<open>A logger shared by two threads\<close>

lemma ex_shared_state_reached:
  "snd (construct 0 [] [''a'' \<mapsto> PyInt 1] 1
     (snd (lookup_attr (WRef 0 0) ''get'' 0
       (snd (lookup_attr (WRef 0 0) ''copy'' 0
         (snd (construct 0 [] [''z'' \<mapsto> PyInt 9] 0
           (snd (wrap_dict Dict ''0001'' init_state))))))))) = ex_shared_state"
  by (simp add: construct_def wrapper_init_def wrapper_dict_def dict_update_def wrap_dict_def
      lookup_attr_def wrapper_getattr_def dict_attrs_def init_state_def ex_shared_state_def fun_eq_iff)

lemma well_formed_ex_shared_state: "well_formed ex_shared_state"
  by (auto simp: well_formed_def ex_shared_state_def split: if_splits)

lemma obj_copy_cached:
  "inst_attrs s i ''copy'' = Some b \<Longrightarrow>
     obj_copy (Inst (WRef c i)) t s = (Inr (Plain (heap s b)), s)"
  by (simp add: lookup_attr_def dict_copy_def)

lemma tmp_bind_enter_cached_copy:
  assumes cc: "current_context_class lg = Wrapped c" and cx: "logger_context lg = Inst (WRef c i)"
    and sl: "tl_dict s c t = Some a" and ca: "inst_attrs s i ''copy'' = Some b"
  shows "\<exists>s2. tmp_bind_enter lg kw t s
                = (Inr (Plain (heap s b), lg\<lparr>logger_context := Inst (WRef c (next_iid s))\<rparr>), s2)
           \<and> tl_dict s2 = tl_dict s
           \<and> heap s2 = (heap s)(a := PyDict (klass (heap s a)) (entries (heap s a) ++ kw))"
proof -
  obtain s2 where b: "logger_bind lg kw t s = (Inr (lg\<lparr>logger_context := Inst (WRef c (next_iid s))\<rparr>), s2)"
    and t2: "tl_dict s2 = tl_dict s"
    and h2: "heap s2 = (heap s)(a := PyDict (klass (heap s a)) (entries (heap s a) ++ kw))"
    using logger_bind_thread_local[OF cc cx sl, of kw] by blast
  have "tmp_bind_enter lg kw t s
          = (Inr (Plain (heap s b), lg\<lparr>logger_context := Inst (WRef c (next_iid s))\<rparr>), s2)"
    using obj_copy_cached[OF ca, of c t] b cc cx by (simp add: tmp_bind_enter_def)
  then show ?thesis using t2 h2 by simp
qed


lemma ex_written_state_eq:
  "ex_written_state
     = ex_shared_state\<lparr>heap := (heap ex_shared_state)(0 := PyDict Dict [''z'' \<mapsto> PyInt 9, ''k'' \<mapsto> PyInt 7])\<rparr>"
  by (simp add: ex_written_state_def wrapper_setitem_def wrapper_dict_def dict_setitem_def
      ex_shared_state_def)

lemma with_tmp_bind_pass_cached_copy:
  assumes cc: "current_context_class lg = Wrapped c" and cx: "logger_context lg = Inst (WRef c i)"
    and sl: "tl_dict s c t = Some a" and ca: "inst_attrs s i ''copy'' = Some b"
  shows "\<exists>s2 s4. tmp_bind_enter lg kw t s
                   = (Inr (Plain (heap s b), lg\<lparr>logger_context := Inst (WRef c (next_iid s))\<rparr>), s2)
           \<and> thread_context c t s2 = thread_context c t s ++ kw
           \<and> with_tmp_bind lg kw ex_pass_block t s = (Inr (), s4)
           \<and> thread_context c t s4 = entries (heap s b)"
proof -
  let ?tl = "lg\<lparr>logger_context := Inst (WRef c (next_iid s))\<rparr>"
  obtain s2 where en: "tmp_bind_enter lg kw t s = (Inr (Plain (heap s b), ?tl), s2)"
    and t2: "tl_dict s2 = tl_dict s"
    and h2: "heap s2 = (heap s)(a := PyDict (klass (heap s a)) (entries (heap s a) ++ kw))"
    using tmp_bind_enter_cached_copy[OF assms, of kw] by blast
  have sl2: "tl_dict s2 c t = Some a" using sl t2 by simp
  have c2: "thread_context c t s2 = thread_context c t s ++ kw"
    using sl sl2 h2 by (simp add: thread_context_Some)
  have bl: "ex_pass_block ?tl s2 = (Inr (), s2)" by (simp add: ex_pass_block_def)
  have w: "with_tmp_bind lg kw ex_pass_block t s
             = (Inr (), s2\<lparr>heap := (heap s2)(a := PyDict (klass (heap s2 a)) (entries (heap s b)))\<rparr>)"
    using with_tmp_bind_block_returns[where block = ex_pass_block, OF en bl]
      tmp_bind_exit_in_place[OF cc sl2, of "heap s b"]
    by simp
  have c4: "thread_context c t (s2\<lparr>heap := (heap s2)(a := PyDict (klass (heap s2 a)) (entries (heap s b)))\<rparr>)
              = entries (heap s b)"
    using sl2 by (simp add: thread_context_Some)
  show ?thesis using en c2 w c4 by blast
qed

section \<open>Properties\<close>

subsection \<open>Equality of context instances\<close>

text \<open>
  C7. Equality of context instances is type identity alone: \<open>__eq__\<close> does not read the
  store at all, two instances are equal exactly when their classes are the same class
  object, and \<open>__ne__\<close> is the negation of \<open>__eq__\<close> for every pair of operands.
\<close>

theorem wrapper_eq_is_type_identity:
  "wrapper_eq (WRef c i) (Inst (WRef c' i')) = (c = c')
   \<and> wrapper_ne self other = (\<not> wrapper_eq self other)"
  by (simp add: wrapper_eq_def wrapper_ne_def)

subsection \<open>The precondition of tmp_bind\<close>

text \<open>
  C3. For a logger whose current context class is not a subclass of the wrapper, entering
  the scope raises \<open>ValueError\<close> (the configuration error) and leaves the store as it
  was: no snapshot is taken, nothing is bound, and the block is never run.
\<close>

theorem tmp_bind_requires_wrapped_class:
  assumes "\<not> issubclass_wrapper (current_context_class lg)"
  shows "tmp_bind_enter lg tmp_values t s = (Inl ValueError, s)
         \<and> with_tmp_bind lg tmp_values block t s = (Inl ValueError, s)"
  using assms by (simp add: tmp_bind_enter_def with_tmp_bind_def)

theorem tmp_bind_requires_wrapped_class_witness:
  "\<not> issubclass_wrapper (current_context_class \<lparr>current_context_class = Backing Dict,
        logger_context = Plain (PyDict Dict [''a'' \<mapsto> PyInt 1])\<rparr>)
   \<and> with_tmp_bind \<lparr>current_context_class = Backing Dict,
        logger_context = Plain (PyDict Dict [''a'' \<mapsto> PyInt 1])\<rparr>
        [''b'' \<mapsto> PyInt 2] (\<lambda>l s. (Inl (Raised ''never run''), s)) 0 init_state
      = (Inl ValueError, init_state)"
  using tmp_bind_requires_wrapped_class
    [of "\<lparr>current_context_class = Backing Dict,
          logger_context = Plain (PyDict Dict [''a'' \<mapsto> PyInt 1])\<rparr>"
        "[''b'' \<mapsto> PyInt 2]" 0 init_state "\<lambda>l s. (Inl (Raised ''never run''), s)"]
  by simp

subsection \<open>Thread isolation\<close>

text \<open>
  What holds of every operation: run by thread \<open>t\<close> (item assignment, construction,
  entering the scope of \<open>tmp_bind\<close>, its restore), it leaves the slots of every other
  thread \<open>t'\<close>, and the entries of the mappings in them, as they were.
\<close>

lemma operations_leave_other_threads_alone:
  assumes "well_formed s" and "t' \<noteq> t"
  shows "thread_context (wclass self) t (wrapper_setitem self k v t s) k = Some v
       \<and> thread_context c' t' (wrapper_setitem self k v t s) = thread_context c' t' s
       \<and> tl_dict (wrapper_setitem self k v t s) c' t' = tl_dict s c' t'
       \<and> thread_context c' t' (snd (construct c args kw t s)) = thread_context c' t' s
       \<and> tl_dict (snd (construct c args kw t s)) c' t' = tl_dict s c' t'
       \<and> thread_context c' t' (snd (tmp_bind_enter lg kw t s)) = thread_context c' t' s
       \<and> tl_dict (snd (tmp_bind_enter lg kw t s)) c' t' = tl_dict s c' t'
       \<and> thread_context c' t' (snd (tmp_bind_exit lg saved t s)) = thread_context c' t' s
       \<and> tl_dict (snd (tmp_bind_exit lg saved t s)) c' t' = tl_dict s c' t'"
proof -
  note wf = assms(1) and ne = assms(2)
  have 1: "thread_context c' t' (wrapper_setitem self k v t s) = thread_context c' t' s"
    using wrapper_setitem_view[OF wf, of c' self t' t k v] ne by simp
  have 2: "tl_dict (wrapper_setitem self k v t s) c' t' = tl_dict s c' t'"
    using step_other_slot[OF step_wrapper_setitem wf ne] .
  have 3: "thread_context c' t' (snd (construct c args kw t s)) = thread_context c' t' s"
    using construct_view[OF wf, of c' c t' t args kw] ne by simp
  have 4: "tl_dict (snd (construct c args kw t s)) c' t' = tl_dict s c' t'"
    using step_other_slot[OF step_construct wf ne] .
  have 5: "thread_context c' t' (snd (tmp_bind_enter lg kw t s)) = thread_context c' t' s"
    using tmp_bind_enter_view[OF wf, of lg c' t' t kw] ne by simp
  have 6: "tl_dict (snd (tmp_bind_enter lg kw t s)) c' t' = tl_dict s c' t'"
    using step_other_slot[OF step_tmp_bind_enter wf ne] .
  have 7: "thread_context c' t' (snd (tmp_bind_exit lg saved t s)) = thread_context c' t' s"
    using tmp_bind_exit_view[OF wf, of lg c' t' t saved] ne by simp
  have 8: "tl_dict (snd (tmp_bind_exit lg saved t s)) c' t' = tl_dict s c' t'"
    using step_other_slot[OF step_tmp_bind_exit wf ne] .
  show ?thesis using wrapper_setitem_written 1 2 3 4 5 6 7 8 by simp
qed

lemma operations_leave_other_threads_alone_example:
  "well_formed ex_state \<and> (0::nat) \<noteq> 1
   \<and> thread_context 0 1 (wrapper_setitem (WRef 0 0) ''b'' (PyInt 2) 1 ex_state) ''b'' = Some (PyInt 2)
   \<and> thread_context 0 0 (wrapper_setitem (WRef 0 0) ''b'' (PyInt 2) 1 ex_state) = [''a'' \<mapsto> PyInt 1]
   \<and> thread_context 0 0 (wrapper_setitem (WRef 0 0) ''b'' (PyInt 2) 1 ex_state) ''b'' = None"
proof -
  have wf: "well_formed ex_state" by (simp add: well_formed_def ex_state_def)
  have ne: "(0::nat) \<noteq> 1" by simp
  have c0: "thread_context 0 0 ex_state = [''a'' \<mapsto> PyInt 1]"
    by (simp add: thread_context_def wrapper_dict_def ex_state_def)
  show ?thesis
    using operations_leave_other_threads_alone[OF wf ne, of "WRef 0 0" "''b''" "PyInt 2" 0] wf c0
    by simp
qed

text \<open>
  C6. A key written on one thread does reach another thread, through an instance that
  both threads use. In the store \<open>ex_written_state\<close> thread 0 has set \<open>k=7\<close> through
  the shared instance; the key is in thread 0's mapping and not in thread 1's. The
  instance holds \<open>get\<close> and \<open>copy\<close> bound to thread 0's mapping, from thread 0's own
  earlier lookups. So on thread 1 the lookup of \<open>get\<close> on the instance returns the method
  of thread 0's mapping, and \<open>get('k')\<close> is 7. And when thread 1 runs
  \<open>with tmp_bind(logger): pass\<close>, the snapshot is a copy of thread 0's mapping, which the
  restore writes into thread 1's own mapping: after the scope \<open>k\<close> is in thread 1's
  context.
\<close>

theorem key_written_on_one_thread_reaches_another:
  "thread_context 0 0 ex_written_state ''k'' = Some (PyInt 7)
   \<and> thread_context 0 1 ex_shared_state ''k'' = None
   \<and> thread_context 0 1 ex_written_state ''k'' = None
   \<and> (\<exists>m. lookup_attr (WRef 0 0) ''get'' 1 ex_written_state = (Inr m, ex_written_state)
          \<and> dict_get (bound_self m) ''k'' ex_written_state = Some (PyInt 7))
   \<and> (\<exists>s4. with_tmp_bind ex_logger [''b'' \<mapsto> PyInt 2] ex_pass_block 1 ex_written_state = (Inr (), s4)
          \<and> thread_context 0 1 s4 ''k'' = Some (PyInt 7))"
proof -
  have cc: "current_context_class ex_logger = Wrapped 0"
    and cx: "logger_context ex_logger = Inst (WRef 0 0)"
    by (simp_all add: ex_logger_def)
  have sl0: "tl_dict ex_written_state 0 0 = Some 0" and sl1: "tl_dict ex_written_state 0 1 = Some 1"
    and ca: "inst_attrs ex_written_state 0 ''copy'' = Some 0"
    and cg: "inst_attrs ex_written_state 0 ''get'' = Some 0"
    and h0: "entries (heap ex_written_state 0) = [''z'' \<mapsto> PyInt 9, ''k'' \<mapsto> PyInt 7]"
    and h1: "entries (heap ex_written_state 1) = [''a'' \<mapsto> PyInt 1]"
    by (simp_all add: ex_written_state_eq) (simp_all add: ex_shared_state_def)
  have s1: "tl_dict ex_shared_state 0 1 = Some 1"
    and g1: "entries (heap ex_shared_state 1) = [''a'' \<mapsto> PyInt 1]"
    by (simp_all add: ex_shared_state_def)
  have a: "thread_context 0 0 ex_written_state ''k'' = Some (PyInt 7)"
    using sl0 h0 by (simp add: thread_context_Some)
  have b0: "thread_context 0 1 ex_shared_state ''k'' = None"
    using s1 g1 by (simp add: thread_context_Some)
  have b: "thread_context 0 1 ex_written_state ''k'' = None"
    using sl1 h1 by (simp add: thread_context_Some)
  have l: "lookup_attr (WRef 0 0) ''get'' 1 ex_written_state
             = (Inr (BoundMethod 0 ''get''), ex_written_state)"
    using lookup_attr_cached[of ex_written_state "WRef 0 0" "''get''" 0 1] cg by simp
  have g: "dict_get 0 ''k'' ex_written_state = Some (PyInt 7)"
    using h0 by (simp add: dict_get_def)
  obtain s4 where
    w: "with_tmp_bind ex_logger [''b'' \<mapsto> PyInt 2] ex_pass_block 1 ex_written_state = (Inr (), s4)"
    and c4: "thread_context 0 1 s4 = entries (heap ex_written_state 0)"
    using with_tmp_bind_pass_cached_copy[OF cc cx sl1 ca, of "[''b'' \<mapsto> PyInt 2]"] by blast
  have c4': "thread_context 0 1 s4 ''k'' = Some (PyInt 7)" using c4 h0 by simp
  show ?thesis using a b0 b l g w c4' by auto
qed

subsection \<open>Every factory call makes a class of its own\<close>

text \<open>
  C8. Two calls of \<open>wrap_dict\<close>, the second in any later store, give two different
  classes, whatever the dict classes and the uuids are (also when they are the same).
  Instances of the two are never equal. The new class has no state on any thread, and in
  every well-formed store a key written through an instance of one of the two classes,
  by item assignment or by construction, leaves the context of the other class
  unchanged on every thread, the writing thread included.
\<close>

theorem factory_classes_are_independent:
  assumes "wrap_dict dc u1 s = (T1, s1)" and "next_cid s1 \<le> next_cid s1'"
    and "wrap_dict dc' u2 s1' = (T2, s2)"
  shows "T1 \<noteq> T2
       \<and> (\<exists>c1 c2. T1 = Wrapped c1 \<and> T2 = Wrapped c2 \<and> c1 \<noteq> c2
            \<and> \<not> wrapper_eq (WRef c1 i) (Inst (WRef c2 j))
            \<and> wrapper_ne (WRef c1 i) (Inst (WRef c2 j))
            \<and> thread_context c2 t s2 = Map.empty
            \<and> (\<forall>s3. well_formed s3 \<longrightarrow>
                  thread_context c2 t' (wrapper_setitem (WRef c1 i) k v t s3) = thread_context c2 t' s3
                \<and> thread_context c1 t' (wrapper_setitem (WRef c2 j) k v t s3) = thread_context c1 t' s3
                \<and> thread_context c2 t' (snd (construct c1 args kw t s3)) = thread_context c2 t' s3
                \<and> thread_context c1 t' (snd (construct c2 args kw t s3)) = thread_context c1 t' s3))"
proof -
  have T1: "T1 = Wrapped (next_cid s)" and n1: "next_cid s1 = Suc (next_cid s)"
    using assms(1) by (auto simp: wrap_dict_def)
  have T2: "T2 = Wrapped (next_cid s1')" and s2: "s2 = snd (wrap_dict dc' u2 s1')"
    using assms(3) by (auto simp: wrap_dict_def)
  have ne: "next_cid s \<noteq> next_cid s1'" using n1 assms(2) by simp
  have e: "thread_context (next_cid s1') t s2 = Map.empty"
    unfolding s2 by (rule wrap_dict_fresh_empty)
  have fr: "thread_context (next_cid s1') t' (wrapper_setitem (WRef (next_cid s) i) k v t s3) = thread_context (next_cid s1') t' s3
          \<and> thread_context (next_cid s) t' (wrapper_setitem (WRef (next_cid s1') j) k v t s3) = thread_context (next_cid s) t' s3
          \<and> thread_context (next_cid s1') t' (snd (construct (next_cid s) args kw t s3)) = thread_context (next_cid s1') t' s3
          \<and> thread_context (next_cid s) t' (snd (construct (next_cid s1') args kw t s3)) = thread_context (next_cid s) t' s3"
    if wf: "well_formed s3" for s3
    using wrapper_setitem_view[OF wf, of "next_cid s1'" "WRef (next_cid s) i" t' t k v]
      wrapper_setitem_view[OF wf, of "next_cid s" "WRef (next_cid s1') j" t' t k v]
      construct_view[OF wf, of "next_cid s1'" "next_cid s" t' t args kw]
      construct_view[OF wf, of "next_cid s" "next_cid s1'" t' t args kw] ne
    by simp
  show ?thesis
    using T1 T2 ne e fr by (simp add: wrapper_eq_def wrapper_ne_def)
qed

theorem factory_classes_are_independent_witness:
  "(\<exists>T1 s1 T2 s2. wrap_dict Dict ''0001'' init_state = (T1, s1) \<and> next_cid s1 \<le> next_cid s1
      \<and> wrap_dict Dict ''0001'' s1 = (T2, s2) \<and> T1 = Wrapped 0 \<and> T2 = Wrapped 1 \<and> well_formed s2
      \<and> thread_context 0 0 (wrapper_setitem (WRef 0 0) ''k'' (PyInt 5) 0 s2) ''k'' = Some (PyInt 5)
      \<and> thread_context 1 0 (wrapper_setitem (WRef 0 0) ''k'' (PyInt 5) 0 s2) ''k'' = None)"
proof -
  obtain T1 s1 where a: "wrap_dict Dict ''0001'' init_state = (T1, s1)"
    by (cases "wrap_dict Dict ''0001'' init_state")
  obtain T2 s2 where b: "wrap_dict Dict ''0001'' s1 = (T2, s2)"
    by (cases "wrap_dict Dict ''0001'' s1")
  have wf1: "well_formed s1" using well_formed_wrap_dict[OF well_formed_init, of Dict "''0001''"] a by simp
  have wf2: "well_formed s2" using well_formed_wrap_dict[OF wf1, of Dict "''0001''"] b by simp
  have c1: "T1 = Wrapped 0" and n1: "next_cid s1 = 1" using a by (auto simp: wrap_dict_def init_state_def)
  have c2: "T2 = Wrapped 1" using b n1 by (auto simp: wrap_dict_def)
  have w: "thread_context 0 0 (wrapper_setitem (WRef 0 0) ''k'' (PyInt 5) 0 s2) ''k'' = Some (PyInt 5)"
    using wrapper_setitem_written[of "WRef 0 0" 0 "''k''" "PyInt 5" s2] by simp
  have "thread_context 1 0 (wrapper_setitem (WRef 0 0) ''k'' (PyInt 5) 0 s2) ''k'' = None"
    using factory_classes_are_independent[OF a _ b, where i = 0 and t = 0 and t' = 0 and k = "''k''" and v = "PyInt 5"] c1 c2 wf2
    by auto
  then show ?thesis using a b c1 c2 wf2 w by simp
qed

subsection \<open>One mapping per class and thread\<close>



subsection \<open>Forwarded attributes are cached on the instance\<close>

text \<open>
  C9. The first lookup of a forwarded name on an instance, by thread \<open>t\<close>, returns the
  bound method of the mapping object \<open>a\<close> that is \<open>t\<close>'s mapping at that moment and
  stores it on the instance. Every later lookup of the name on that instance, by any
  thread \<open>t'\<close> and in any store in which the entry stands, returns that same method and
  changes nothing; the module's operations never remove or replace the entry. The
  method stays bound to \<open>a\<close>: called by another thread \<open>t'\<close> (here \<open>update\<close> with keyword
  arguments), it changes the context of \<open>t\<close>, the thread of the first lookup, and not
  the context of the calling thread, whose own mapping is another object.
\<close>

theorem forwarded_method_is_cached:
  assumes "inst_attrs s (wid self) name = None"
    and "wrapper_dict self t s = (a, s1)"
    and "name \<in> set (dict_attrs (klass (heap s1 a)))"
  shows "\<exists>s2. lookup_attr self name t s = (Inr (BoundMethod a name), s2)
          \<and> tl_dict s2 (wclass self) t = Some a
          \<and> inst_attrs s2 (wid self) name = Some a
          \<and> lookup_attr self name t' s2 = (Inr (BoundMethod a name), s2)
          \<and> (\<forall>s3. inst_attrs s3 (wid self) name = Some a \<longrightarrow>
                 lookup_attr self name t' s3 = (Inr (BoundMethod a name), s3))
          \<and> thread_context (wclass self) t (snd (dict_update a [] kw' t' s2))
              = thread_context (wclass self) t s2 ++ kw'
          \<and> (well_formed s \<and> wid self < next_iid s \<longrightarrow>
                 inst_attrs (wrapper_setitem r k v t' s2) (wid self) name = Some a
               \<and> inst_attrs (snd (construct c args kw t' s2)) (wid self) name = Some a
               \<and> inst_attrs (snd (lookup_attr r name' t' s2)) (wid self) name = Some a
               \<and> inst_attrs (snd (tmp_bind_enter lg kw t' s2)) (wid self) name = Some a
               \<and> inst_attrs (snd (tmp_bind_exit lg saved t' s2)) (wid self) name = Some a)
          \<and> (well_formed s \<and> t' \<noteq> t \<longrightarrow>
                 fst (wrapper_dict self t' s2) \<noteq> a
               \<and> thread_context (wclass self) t' (snd (dict_update a [] kw' t' s2))
                   = thread_context (wclass self) t' s2)"
proof -
  let ?s2 = "s1\<lparr>inst_attrs := (inst_attrs s1)(wid self := (inst_attrs s1 (wid self))(name \<mapsto> a))\<rparr>"
  have l1: "lookup_attr self name t s = (Inr (BoundMethod a name), ?s2)"
    using lookup_attr_first[OF assms] .
  have sl: "tl_dict ?s2 (wclass self) t = Some a"
    using wrapper_dict_slot[OF assms(2)] by simp
  have at: "inst_attrs ?s2 (wid self) name = Some a" by simp
  have l2: "lookup_attr self name t' ?s2 = (Inr (BoundMethod a name), ?s2)"
    using lookup_attr_cached[OF at] .
  have l3: "\<forall>s3. inst_attrs s3 (wid self) name = Some a \<longrightarrow>
                 lookup_attr self name t' s3 = (Inr (BoundMethod a name), s3)"
    using lookup_attr_cached by blast
  have up: "thread_context (wclass self) t (snd (dict_update a [] kw' t' ?s2))
              = thread_context (wclass self) t ?s2 ++ kw'"
    using dict_update_kw_context[OF sl] .
  have st: "step t s ?s2" using step_lookup_attr[of t s self name] l1 by simp
  have keep: "inst_attrs (wrapper_setitem r k v t' ?s2) (wid self) name = Some a
               \<and> inst_attrs (snd (construct c args kw t' ?s2)) (wid self) name = Some a
               \<and> inst_attrs (snd (lookup_attr r name' t' ?s2)) (wid self) name = Some a
               \<and> inst_attrs (snd (tmp_bind_enter lg kw t' ?s2)) (wid self) name = Some a
               \<and> inst_attrs (snd (tmp_bind_exit lg saved t' ?s2)) (wid self) name = Some a"
    if h: "well_formed s \<and> wid self < next_iid s"
  proof -
    have wf2: "well_formed ?s2" using step_wf[OF st] h by simp
    have lt: "wid self < next_iid ?s2" using step_next_iid[OF st] h by simp
    show ?thesis
      using step_keeps_attr[OF step_wrapper_setitem wf2 lt at]
        step_keeps_attr[OF step_construct wf2 lt at]
        step_keeps_attr[OF step_lookup_attr wf2 lt at]
        step_keeps_attr[OF step_tmp_bind_enter wf2 lt at]
        step_keeps_attr[OF step_tmp_bind_exit wf2 lt at]
      by simp
  qed
  have other: "fst (wrapper_dict self t' ?s2) \<noteq> a
               \<and> thread_context (wclass self) t' (snd (dict_update a [] kw' t' ?s2))
                   = thread_context (wclass self) t' ?s2"
    if h: "well_formed s \<and> t' \<noteq> t"
  proof -
    have wf2: "well_formed ?s2" using step_wf[OF st] h by simp
    have ne: "t' \<noteq> t" using h by simp
    have "thread_context (wclass self) t' (?s2\<lparr>heap := (heap ?s2)(a := PyDict (klass (heap ?s2 a)) (entries (heap ?s2 a) ++ kw'))\<rparr>)
            = thread_context (wclass self) t' ?s2"
      using heap_write_view[OF wf2 sl, of "wclass self" t'] ne by blast
    then show ?thesis
      using other_thread_other_object[OF wf2 sl ne] by (simp add: dict_update_kw)
  qed
  show ?thesis
    apply (rule exI[of _ ?s2])
    apply (intro conjI impI)
    using l1 sl at l2 l3 up keep other by blast+
qed

theorem forwarded_method_is_cached_witness:
  "inst_attrs ex_state (wid (WRef 0 0)) ''update'' = None
   \<and> wrapper_dict (WRef 0 0) 0 ex_state = (0, ex_state)
   \<and> ''update'' \<in> set (dict_attrs (klass (heap ex_state 0)))
   \<and> well_formed ex_state \<and> (1::nat) \<noteq> 0
   \<and> (\<exists>s2. lookup_attr (WRef 0 0) ''update'' 0 ex_state = (Inr (BoundMethod 0 ''update''), s2)
         \<and> lookup_attr (WRef 0 0) ''update'' 1 s2 = (Inr (BoundMethod 0 ''update''), s2)
         \<and> thread_context 0 0 s2 = [''a'' \<mapsto> PyInt 1]
         \<and> thread_context 0 0 (snd (dict_update 0 [] [''x'' \<mapsto> PyInt 9] 1 s2))
              = [''a'' \<mapsto> PyInt 1, ''x'' \<mapsto> PyInt 9]
         \<and> thread_context 0 1 (snd (dict_update 0 [] [''x'' \<mapsto> PyInt 9] 1 s2)) = Map.empty)"
proof -
  have h1: "inst_attrs ex_state (wid (WRef 0 0)) ''update'' = None" by (simp add: ex_state_def)
  have h2: "wrapper_dict (WRef 0 0) 0 ex_state = (0, ex_state)"
    by (simp add: wrapper_dict_def ex_state_def)
  have h3: "''update'' \<in> set (dict_attrs (klass (heap ex_state 0)))" by (rule update_in_dict_attrs)
  have wf: "well_formed ex_state" by (rule well_formed_ex_state)
  have c0: "thread_context 0 0 ex_state = [''a'' \<mapsto> PyInt 1]"
    by (simp add: thread_context_def wrapper_dict_def ex_state_def)
  have c1: "thread_context 0 1 ex_state = Map.empty"
    by (simp add: thread_context_def wrapper_dict_def ex_state_def)
  obtain s2 where l: "lookup_attr (WRef 0 0) ''update'' 0 ex_state = (Inr (BoundMethod 0 ''update''), s2)"
    and l': "lookup_attr (WRef 0 0) ''update'' 1 s2 = (Inr (BoundMethod 0 ''update''), s2)"
    and u: "thread_context (wclass (WRef 0 0)) 0 (snd (dict_update 0 [] [''x'' \<mapsto> PyInt 9] 1 s2))
              = thread_context (wclass (WRef 0 0)) 0 s2 ++ [''x'' \<mapsto> PyInt 9]"
    and o: "well_formed ex_state \<and> (1::nat) \<noteq> 0 \<longrightarrow>
                 fst (wrapper_dict (WRef 0 0) 1 s2) \<noteq> 0
               \<and> thread_context (wclass (WRef 0 0)) 1 (snd (dict_update 0 [] [''x'' \<mapsto> PyInt 9] 1 s2))
                   = thread_context (wclass (WRef 0 0)) 1 s2"
    using forwarded_method_is_cached[OF h1 h2 h3, where t' = 1 and kw' = "[''x'' \<mapsto> PyInt 9]" and r = "WRef 0 0"
        and k = "''k''" and v = PyNone and c = 0 and args = "[]" and kw = Map.empty
        and name' = "''get''" and lg = ex_logger and saved = "Plain (PyDict Dict Map.empty)"]
    by (elim exE conjE) (rule that)
  have v0: "thread_context 0 0 s2 = thread_context 0 0 ex_state"
    using lookup_attr_view[OF wf, of 0 0 "WRef 0 0" "''update''" 0] l by simp
  have v1: "thread_context 0 1 s2 = thread_context 0 1 ex_state"
    using lookup_attr_view[OF wf, of 0 1 "WRef 0 0" "''update''" 0] l by simp
  have a: "thread_context 0 0 (snd (dict_update 0 [] [''x'' \<mapsto> PyInt 9] 1 s2))
              = [''a'' \<mapsto> PyInt 1, ''x'' \<mapsto> PyInt 9]"
    using u v0 c0 by simp
  have b: "thread_context 0 1 (snd (dict_update 0 [] [''x'' \<mapsto> PyInt 9] 1 s2)) = Map.empty"
    using o wf v1 c1 by simp
  show ?thesis using h1 h2 h3 wf l l' v0 c0 a b by auto
qed

subsection \<open>Construction updates the shared mapping\<close>

text \<open>
  C4. Constructing an instance of a wrapped class merges into the calling thread's
  mapping and never replaces it. With a first positional argument that is an instance
  of the same class, only the keyword arguments are merged, whatever the other
  positional arguments are. Otherwise \<open>__init__\<close> is the mapping's own \<open>update\<close> on all
  the arguments: keyword arguments alone are merged; a plain mapping, or a list of
  pairs, is merged first and the keyword arguments after it. In every case, also when
  \<open>update\<close> raises, every key the thread's context had is still in it.
\<close>

theorem construction_updates_shared_mapping:
  assumes "well_formed s"
  shows "(\<exists>s'. construct c (ArgObj (Inst (WRef c j)) # rest) kw t s = (Inr (WRef c (next_iid s)), s')
              \<and> thread_context c t s' = thread_context c t s ++ kw)
       \<and> (\<not> (case args of [] \<Rightarrow> False | x # xs \<Rightarrow> isinstance_wrapped x c) \<longrightarrow>
             wrapper_init (WRef c i) args kw t s
               = (case wrapper_dict (WRef c i) t s of (a, s1) \<Rightarrow> dict_update a args kw t s1))
       \<and> (\<exists>s'. construct c [] kw t s = (Inr (WRef c (next_iid s)), s')
              \<and> thread_context c t s' = thread_context c t s ++ kw)
       \<and> (\<exists>s'. construct c [ArgObj (Plain d)] kw t s = (Inr (WRef c (next_iid s)), s')
              \<and> thread_context c t s' = thread_context c t s ++ entries d ++ kw)
       \<and> (\<exists>s'. construct c [ArgPairs ps] kw t s = (Inr (WRef c (next_iid s)), s')
              \<and> thread_context c t s' = thread_context c t s ++ map_of (rev ps) ++ kw)
       \<and> dom (thread_context c t s) \<subseteq> dom (thread_context c t (snd (construct c args kw t s)))"
proof -
  have 2: "\<not> (case args of [] \<Rightarrow> False | x # xs \<Rightarrow> isinstance_wrapped x c) \<longrightarrow>
             wrapper_init (WRef c i) args kw t s
               = (case wrapper_dict (WRef c i) t s of (a, s1) \<Rightarrow> dict_update a args kw t s1)"
    by (cases args) (simp_all add: wrapper_init_def)
  have 3: "\<exists>s'. construct c [] kw t s = (Inr (WRef c (next_iid s)), s')
              \<and> thread_context c t s' = thread_context c t s ++ kw"
    using construct_kw_only[of c kw t s] by auto
  show ?thesis
    using construct_same_class_arg[of c j rest kw t s] 2 3 construct_plain_arg[of c d kw t s]
      construct_pairs_arg[of c ps kw t s] construct_keeps_keys[OF assms, of c t args kw]
    by (intro conjI)
qed

theorem construction_updates_shared_mapping_witness:
  "well_formed ex_state
   \<and> thread_context 0 0 ex_state = [''a'' \<mapsto> PyInt 1]
   \<and> (\<exists>s'. construct 0 [] [''b'' \<mapsto> PyInt 2] 0 ex_state = (Inr (WRef 0 1), s')
         \<and> thread_context 0 0 s' = [''a'' \<mapsto> PyInt 1, ''b'' \<mapsto> PyInt 2])
   \<and> (\<exists>s'. construct 0 [ArgObj (Inst (WRef 0 0))] [''b'' \<mapsto> PyInt 2] 0 ex_state = (Inr (WRef 0 1), s')
         \<and> thread_context 0 0 s' = [''a'' \<mapsto> PyInt 1, ''b'' \<mapsto> PyInt 2])"
proof -
  have wf: "well_formed ex_state" by (rule well_formed_ex_state)
  have c0: "thread_context 0 0 ex_state = [''a'' \<mapsto> PyInt 1]"
    by (simp add: thread_context_def wrapper_dict_def ex_state_def)
  have n: "next_iid ex_state = 1" by (simp add: ex_state_def)
  note h = construction_updates_shared_mapping[OF wf, where c = 0 and j = 0 and rest = "[]"
        and kw = "[''b'' \<mapsto> PyInt 2]" and t = 0 and args = "[]" and i = 0
        and d = "PyDict Dict Map.empty" and ps = "[]"]
  have a: "\<exists>s'. construct 0 [ArgObj (Inst (WRef 0 0))] [''b'' \<mapsto> PyInt 2] 0 ex_state = (Inr (WRef 0 1), s')
         \<and> thread_context 0 0 s' = [''a'' \<mapsto> PyInt 1, ''b'' \<mapsto> PyInt 2]"
    using h c0 n by simp
  have b: "\<exists>s'. construct 0 [] [''b'' \<mapsto> PyInt 2] 0 ex_state = (Inr (WRef 0 1), s')
         \<and> thread_context 0 0 s' = [''a'' \<mapsto> PyInt 1, ''b'' \<mapsto> PyInt 2]"
    using h c0 n by simp
  show ?thesis using wf c0 a b by simp
qed

subsection \<open>The restore is in place\<close>



subsection \<open>Round trip of the scope on normal exit\<close>

text \<open>
  When the snapshot is taken from the thread's own mapping. Take a logger in thread-local
  mode whose context is an instance of its context class, on a thread that has its
  mapping, the instance holding no \<open>copy\<close> method bound to another mapping. Entering
  \<open>tmp_bind\<close> succeeds: the snapshot is the thread's mapping as it is, the yielded logger
  has an instance of the same class as its context, and the thread's context is the old
  one with the temporary values merged in. For every block that ends normally and
  leaves a mapping in the thread's slot, the statement ends normally in the block's
  final store with the entries of that mapping rewritten to the snapshot, so that the
  thread's context is exactly what it was before the scope.
\<close>

lemma tmp_bind_round_trip_own_snapshot:
  assumes "current_context_class lg = Wrapped c" and "logger_context lg = Inst (WRef c i)"
    and "tl_dict s c t = Some a"
    and "inst_attrs s i ''copy'' = None \<or> inst_attrs s i ''copy'' = Some a"
  shows "\<exists>tmp_logger s2 j.
           tmp_bind_enter lg kw t s = (Inr (Plain (heap s a), tmp_logger), s2)
         \<and> current_context_class tmp_logger = Wrapped c
         \<and> logger_context tmp_logger = Inst (WRef c j)
         \<and> thread_context c t s2 = thread_context c t s ++ kw
         \<and> (\<forall>block s3 a'. block tmp_logger s2 = (Inr (), s3) \<and> tl_dict s3 c t = Some a' \<longrightarrow>
               with_tmp_bind lg kw block t s
                 = (Inr (), s3\<lparr>heap := (heap s3)(a' := PyDict (klass (heap s3 a')) (entries (heap s a)))\<rparr>)
             \<and> thread_context c t (snd (with_tmp_bind lg kw block t s)) = thread_context c t s)"
proof -
  let ?tl = "lg\<lparr>logger_context := Inst (WRef c (next_iid s))\<rparr>"
  obtain s2 where en: "tmp_bind_enter lg kw t s = (Inr (Plain (heap s a), ?tl), s2)"
    and t2: "tl_dict s2 = tl_dict s"
    and h2: "heap s2 = (heap s)(a := PyDict (klass (heap s a)) (entries (heap s a) ++ kw))"
    using tmp_bind_enter_thread_local[OF assms, of kw] by blast
  have c2: "thread_context c t s2 = thread_context c t s ++ kw"
    using assms(3) t2 h2 by (simp add: thread_context_Some)
  have rt: "with_tmp_bind lg kw block t s
               = (Inr (), s3\<lparr>heap := (heap s3)(a' := PyDict (klass (heap s3 a')) (entries (heap s a)))\<rparr>)
             \<and> thread_context c t (snd (with_tmp_bind lg kw block t s)) = thread_context c t s"
    if b: "block ?tl s2 = (Inr (), s3)" and sl3: "tl_dict s3 c t = Some a'" for block s3 a'
  proof -
    have "with_tmp_bind lg kw block t s
            = (Inr (), s3\<lparr>heap := (heap s3)(a' := PyDict (klass (heap s3 a')) (entries (heap s a)))\<rparr>)"
      using with_tmp_bind_block_returns[where block = block, OF en b]
        tmp_bind_exit_in_place[OF assms(1) sl3, of "heap s a"]
      by simp
    then show ?thesis using sl3 assms(3) by (simp add: thread_context_Some)
  qed
  have rt': "\<forall>block s3 a'. block ?tl s2 = (Inr (), s3) \<and> tl_dict s3 c t = Some a' \<longrightarrow>
               with_tmp_bind lg kw block t s
                 = (Inr (), s3\<lparr>heap := (heap s3)(a' := PyDict (klass (heap s3 a')) (entries (heap s a)))\<rparr>)
             \<and> thread_context c t (snd (with_tmp_bind lg kw block t s)) = thread_context c t s"
  proof (intro allI impI)
    fix block :: "logger \<Rightarrow> state \<Rightarrow> (pyexc + unit) \<times> state" and s3 :: state and a' :: addr
    assume h: "block ?tl s2 = (Inr (), s3) \<and> tl_dict s3 c t = Some a'"
    from h have b: "block ?tl s2 = (Inr (), s3)" and sl3: "tl_dict s3 c t = Some a'" by simp_all
    show "with_tmp_bind lg kw block t s
                 = (Inr (), s3\<lparr>heap := (heap s3)(a' := PyDict (klass (heap s3 a')) (entries (heap s a)))\<rparr>)
             \<and> thread_context c t (snd (with_tmp_bind lg kw block t s)) = thread_context c t s"
      by (rule rt[where block = block, OF b sl3])
  qed
  have cc': "current_context_class ?tl = Wrapped c" using assms(1) by simp
  have cx': "logger_context ?tl = Inst (WRef c (next_iid s))" by simp
  show ?thesis
    by (rule exI[of _ ?tl], rule exI[of _ s2], rule exI[of _ "next_iid s"]) (intro conjI; fact)
qed

lemma tmp_bind_round_trip_example:
  "current_context_class ex_logger = Wrapped 0 \<and> logger_context ex_logger = Inst (WRef 0 0)
   \<and> tl_dict ex_state 0 0 = Some 0
   \<and> (inst_attrs ex_state 0 ''copy'' = None \<or> inst_attrs ex_state 0 ''copy'' = Some 0)
   \<and> thread_context 0 0 ex_state = [''a'' \<mapsto> PyInt 1]
   \<and> (\<exists>saved tmp_logger s2 s3 s4.
         tmp_bind_enter ex_logger [''b'' \<mapsto> PyInt 2] 0 ex_state = (Inr (saved, tmp_logger), s2)
       \<and> thread_context 0 0 s2 = [''a'' \<mapsto> PyInt 1, ''b'' \<mapsto> PyInt 2]
       \<and> ex_block tmp_logger s2 = (Inr (), s3)
       \<and> thread_context 0 0 s3
            = [''a'' \<mapsto> PyInt 1, ''b'' \<mapsto> PyInt 2, ''c'' \<mapsto> PyInt 3, ''d'' \<mapsto> PyInt 4]
       \<and> with_tmp_bind ex_logger [''b'' \<mapsto> PyInt 2] ex_block 0 ex_state = (Inr (), s4)
       \<and> thread_context 0 0 s4 = [''a'' \<mapsto> PyInt 1])"
proof -
  have cc: "current_context_class ex_logger = Wrapped 0"
    and cx: "logger_context ex_logger = Inst (WRef 0 0)"
    by (simp_all add: ex_logger_def)
  have sl: "tl_dict ex_state 0 0 = Some 0" by (simp add: ex_state_def)
  have ca: "inst_attrs ex_state 0 ''copy'' = None \<or> inst_attrs ex_state 0 ''copy'' = Some 0"
    by (simp add: ex_state_def)
  have h0: "heap ex_state 0 = PyDict Dict [''a'' \<mapsto> PyInt 1]" by (simp add: ex_state_def)
  obtain tmp_logger s2 j where
    en: "tmp_bind_enter ex_logger [''b'' \<mapsto> PyInt 2] 0 ex_state
           = (Inr (Plain (heap ex_state 0), tmp_logger), s2)"
    and cc1: "current_context_class tmp_logger = Wrapped 0"
    and cx1: "logger_context tmp_logger = Inst (WRef 0 j)"
    and c2: "thread_context 0 0 s2 = thread_context 0 0 ex_state ++ [''b'' \<mapsto> PyInt 2]"
    and rt: "\<forall>block s3 a'. block tmp_logger s2 = (Inr (), s3) \<and> tl_dict s3 0 0 = Some a' \<longrightarrow>
               with_tmp_bind ex_logger [''b'' \<mapsto> PyInt 2] block 0 ex_state
                 = (Inr (), s3\<lparr>heap := (heap s3)(a' := PyDict (klass (heap s3 a')) (entries (heap ex_state 0)))\<rparr>)
             \<and> thread_context 0 0 (snd (with_tmp_bind ex_logger [''b'' \<mapsto> PyInt 2] block 0 ex_state))
                 = thread_context 0 0 ex_state"
    using tmp_bind_round_trip_own_snapshot[OF cc cx sl ca, of "[''b'' \<mapsto> PyInt 2]"]
    by (elim exE conjE) (rule that)
  have sl2: "tl_dict s2 0 0 = Some 0" using ex_enter en by auto
  have c2': "thread_context 0 0 s2 = [''a'' \<mapsto> PyInt 1, ''b'' \<mapsto> PyInt 2]"
    using c2 thread_context_ex_state by simp
  obtain s3 where bl: "ex_block tmp_logger s2 = (Inr (), s3)"
    and t3: "tl_dict s3 = tl_dict s2"
    and h3: "heap s3 = (heap s2)(0 := PyDict (klass (heap s2 0))
                                   (entries (heap s2 0) ++ [''c'' \<mapsto> PyInt 3] ++ [''d'' \<mapsto> PyInt 4]))"
    using ex_block_runs[OF cc1 cx1 sl2] by blast
  have sl3: "tl_dict s3 0 0 = Some 0" using t3 sl2 by simp
  have "thread_context 0 0 s3 = thread_context 0 0 s2 ++ [''c'' \<mapsto> PyInt 3] ++ [''d'' \<mapsto> PyInt 4]"
    using sl2 sl3 h3 by (simp add: thread_context_Some)
  then have c3: "thread_context 0 0 s3
            = [''a'' \<mapsto> PyInt 1, ''b'' \<mapsto> PyInt 2, ''c'' \<mapsto> PyInt 3, ''d'' \<mapsto> PyInt 4]"
    using c2' by simp
  obtain s4 where w: "with_tmp_bind ex_logger [''b'' \<mapsto> PyInt 2] ex_block 0 ex_state = (Inr (), s4)"
    and c4: "thread_context 0 0 s4 = thread_context 0 0 ex_state"
    using rt bl sl3 by (metis snd_conv)
  have c4': "thread_context 0 0 s4 = [''a'' \<mapsto> PyInt 1]" using c4 thread_context_ex_state by simp
  show ?thesis using cc cx sl ca thread_context_ex_state en c2' bl c3 w c4' by blast
qed

text \<open>
  C2. The round trip fails for a logger that two threads share. In the store
  \<open>ex_shared_state\<close> thread 1's context is \<open>{a: 1}\<close>, thread 0's is \<open>{z: 9}\<close>, and the
  logger's context instance holds the \<open>copy\<close> method of thread 0's mapping, from thread
  0's own earlier lookup. On thread 1, \<open>with tmp_bind(logger, b=2): pass\<close> enters with
  the thread's context \<open>{a: 1, b: 2}\<close>, but the snapshot is a copy of thread 0's mapping,
  and the restore writes it into thread 1's mapping: after the scope, which ends
  normally, thread 1's context is \<open>{z: 9}\<close> and not \<open>{a: 1}\<close>.
\<close>

theorem tmp_bind_restores_another_threads_snapshot:
  "thread_context 0 1 ex_shared_state = [''a'' \<mapsto> PyInt 1]
   \<and> (\<exists>saved tmp_logger s2 s4.
         tmp_bind_enter ex_logger [''b'' \<mapsto> PyInt 2] 1 ex_shared_state = (Inr (saved, tmp_logger), s2)
       \<and> thread_context 0 1 s2 = [''a'' \<mapsto> PyInt 1, ''b'' \<mapsto> PyInt 2]
       \<and> with_tmp_bind ex_logger [''b'' \<mapsto> PyInt 2] ex_pass_block 1 ex_shared_state = (Inr (), s4)
       \<and> thread_context 0 1 s4 = [''z'' \<mapsto> PyInt 9])"
proof -
  have cc: "current_context_class ex_logger = Wrapped 0"
    and cx: "logger_context ex_logger = Inst (WRef 0 0)"
    by (simp_all add: ex_logger_def)
  have sl: "tl_dict ex_shared_state 0 1 = Some 1" by (simp add: ex_shared_state_def)
  have ca: "inst_attrs ex_shared_state 0 ''copy'' = Some 0" by (simp add: ex_shared_state_def)
  have c1: "thread_context 0 1 ex_shared_state = [''a'' \<mapsto> PyInt 1]"
    using sl by (simp add: thread_context_Some) (simp add: ex_shared_state_def)
  have h0: "entries (heap ex_shared_state 0) = [''z'' \<mapsto> PyInt 9]"
    by (simp add: ex_shared_state_def)
  obtain s2 s4 where
    en: "tmp_bind_enter ex_logger [''b'' \<mapsto> PyInt 2] 1 ex_shared_state
           = (Inr (Plain (heap ex_shared_state 0),
                   ex_logger\<lparr>logger_context := Inst (WRef 0 (next_iid ex_shared_state))\<rparr>), s2)"
    and c2: "thread_context 0 1 s2 = thread_context 0 1 ex_shared_state ++ [''b'' \<mapsto> PyInt 2]"
    and w: "with_tmp_bind ex_logger [''b'' \<mapsto> PyInt 2] ex_pass_block 1 ex_shared_state = (Inr (), s4)"
    and c4: "thread_context 0 1 s4 = entries (heap ex_shared_state 0)"
    using with_tmp_bind_pass_cached_copy[OF cc cx sl ca, of "[''b'' \<mapsto> PyInt 2]"] by blast
  have c2': "thread_context 0 1 s2 = [''a'' \<mapsto> PyInt 1, ''b'' \<mapsto> PyInt 2]"
    using c2 c1 by simp
  have c4': "thread_context 0 1 s4 = [''z'' \<mapsto> PyInt 9]" using c4 h0 by simp
  show ?thesis using c1 en c2' w c4' by blast
qed

subsection \<open>A block that raises\<close>

text \<open>
  C1. On the small store, where thread 0's context is \<open>{a: 1}\<close>, the statement
  \<open>with tmp_bind(logger, b=2) as l: l.bind(c=3); raise ...\<close> ends with the block's
  exception, unchanged, and with the thread's context \<open>{a: 1, b: 2, c: 3}\<close>: the
  exception leaves the generator at the \<open>yield\<close>, so \<open>clear()\<close> and \<open>update(saved)\<close>
  are not run and nothing is restored.
\<close>

theorem tmp_bind_skips_restore_when_block_raises:
  "thread_context 0 0 ex_state = [''a'' \<mapsto> PyInt 1]
   \<and> (\<exists>s'. with_tmp_bind ex_logger [''b'' \<mapsto> PyInt 2] ex_raising_block 0 ex_state
               = (Inl (Raised ''boom''), s')
          \<and> thread_context 0 0 s' = [''a'' \<mapsto> PyInt 1, ''b'' \<mapsto> PyInt 2, ''c'' \<mapsto> PyInt 3])"
proof -
  obtain s2 where en: "tmp_bind_enter ex_logger [''b'' \<mapsto> PyInt 2] 0 ex_state
            = (Inr (Plain (PyDict Dict [''a'' \<mapsto> PyInt 1]),
                    ex_logger\<lparr>logger_context := Inst (WRef 0 1)\<rparr>), s2)"
    and sl2: "tl_dict s2 0 0 = Some 0"
    and h2: "heap s2 0 = PyDict Dict [''a'' \<mapsto> PyInt 1, ''b'' \<mapsto> PyInt 2]"
    using ex_enter by blast
  have cc1: "current_context_class (ex_logger\<lparr>logger_context := Inst (WRef 0 1)\<rparr>) = Wrapped 0"
    and cx1: "logger_context (ex_logger\<lparr>logger_context := Inst (WRef 0 1)\<rparr>) = Inst (WRef 0 1)"
    by (simp_all add: ex_logger_def)
  obtain s3 where bl: "ex_raising_block (ex_logger\<lparr>logger_context := Inst (WRef 0 1)\<rparr>) s2
                         = (Inl (Raised ''boom''), s3)"
    and t3: "tl_dict s3 = tl_dict s2"
    and h3: "heap s3 = (heap s2)(0 := PyDict (klass (heap s2 0)) (entries (heap s2 0) ++ [''c'' \<mapsto> PyInt 3]))"
    using ex_raising_block_raises[OF cc1 cx1 sl2] by blast
  have w: "with_tmp_bind ex_logger [''b'' \<mapsto> PyInt 2] ex_raising_block 0 ex_state
             = (Inl (Raised ''boom''), s3)"
    using with_tmp_bind_block_raises[where block = ex_raising_block, OF en bl] .
  have sl3: "tl_dict s3 0 0 = Some 0" using t3 sl2 by simp
  have c3: "thread_context 0 0 s3 = [''a'' \<mapsto> PyInt 1, ''b'' \<mapsto> PyInt 2, ''c'' \<mapsto> PyInt 3]"
    using sl3 h3 h2 by (simp add: thread_context_Some)
  show ?thesis using thread_context_ex_state w c3 by blast
qed

end
